theory Spec2Isabelle
  imports Complex_Main "HOL-Library.Log_Nat"
begin

section \<open>The payroll console program (A\_E.cpp) as HOL functions\<close>

text \<open>
  The program reads lines from the console, validates them field by field and keeps the
  employees in a vector. The model below follows \<^verbatim>\<open>src/A_E.cpp\<close>; the two validators of
  \<^verbatim>\<open>src/DeepSeek.cpp\<close> that differ in their error handling are modelled after \<open>main\<close>.

  Conventions.
  \<^item> A \<^verbatim>\<open>double\<close> is an IEEE binary64 value: a finite one is the rational number it
    denotes, and a parsed decimal and a product are rounded to the nearest such number
    (ties to even), or overflow to an infinity. The sign of a zero is not represented; the
    program never computes with a negative value.
  \<^item> An \<^verbatim>\<open>int\<close> is a mathematical integer; the only place where the 32-bit range matters
    is \<open>stoi\<close>, where the range check is written out.
  \<^item> The console input is the list of the lines still to be read. At the end of the input
    \<^verbatim>\<open>getline\<close> leaves the empty string, every validator rejects it, and the loop never
    ends: that is the result \<open>Diverge\<close>.
  \<^item> A character is a byte, classified as in the C locale: a byte above 127 is in none of
    the classes.
  \<^item> The console output is the list of the items inserted into \<^verbatim>\<open>cout\<close> with \<^verbatim>\<open><<\<close>, in
    order; the formatting of numbers by the stream is not modelled.
\<close>

subsection \<open>Character classes of \<^verbatim>\<open><cctype>\<close> (C locale)\<close>

definition isdigit :: "char \<Rightarrow> bool" where
  "isdigit c \<longleftrightarrow> c \<in> set ''0123456789''"

definition isalpha :: "char \<Rightarrow> bool" where
  "isalpha c \<longleftrightarrow> c \<in> set ''abcdefghijklmnopqrstuvwxyzABCDEFGHIJKLMNOPQRSTUVWXYZ''"

definition isalnum :: "char \<Rightarrow> bool" where
  "isalnum c \<longleftrightarrow> isalpha c \<or> isdigit c"

text \<open>Space, \<^verbatim>\<open>\t\<close>, \<^verbatim>\<open>\n\<close>, \<^verbatim>\<open>\v\<close>, \<^verbatim>\<open>\f\<close> and \<^verbatim>\<open>\r\<close>.\<close>

definition isspace :: "char \<Rightarrow> bool" where
  "isspace c \<longleftrightarrow> c \<in> set [CHR '' '', CHR 0x09, CHR 0x0A, CHR 0x0B, CHR 0x0C, CHR 0x0D]"

subsection \<open>\<^verbatim>\<open>PayrollSystem::trim\<close>\<close>

text \<open>
  The two index loops of \<open>trim\<close>. The indices are \<^verbatim>\<open>size_t\<close>; \<open>stop\<close> is the source's
  \<^verbatim>\<open>end\<close>. In the second loop a decrement at index 0 would wrap around to \<open>2^64 - 1\<close>;
  the model stops there with the wrapped value (by lemma \<open>trim_end_eq\<close> the loop started by
  \<open>trim\<close> stays between \<open>start\<close> and \<open>stop\<close> and never gets there).
\<close>

function trim_start :: "string \<Rightarrow> nat \<Rightarrow> nat \<Rightarrow> nat" where
  "trim_start str start stop =
     (if start \<le> stop \<and> isspace (str ! start) then trim_start str (start + 1) stop
      else start)"
  by pat_completeness auto
termination
  by (relation "measure (\<lambda>(str, start, stop). stop + 1 - start)") auto

function trim_end :: "string \<Rightarrow> nat \<Rightarrow> nat \<Rightarrow> nat" where
  "trim_end str start stop =
     (if stop \<ge> start \<and> isspace (str ! stop)
      then (if stop = 0 then 2 ^ 64 - 1 else trim_end str start (stop - 1))
      else stop)"
  by pat_completeness auto
termination
  by (relation "measure (\<lambda>(str, start, stop). stop)") auto

declare trim_start.simps [simp del] trim_end.simps [simp del]

text \<open>\<^verbatim>\<open>str.substr(pos, n)\<close> for \<open>pos \<le> length str\<close>.\<close>

definition substr :: "string \<Rightarrow> nat \<Rightarrow> nat \<Rightarrow> string" where
  "substr str pos n = take n (drop pos str)"

text \<open>
  The count \<^verbatim>\<open>end - start + 1\<close> is computed modulo \<open>2^64\<close>; \<open>start \<le> stop + 1\<close> holds
  after the loops, so it is \<open>stop + 1 - start\<close> (0 for a line of white space only).
\<close>

definition trim :: "string \<Rightarrow> string" where
  "trim str =
     (if str = [] then []
      else let start = trim_start str 0 (length str - 1);
               stop = trim_end str start (length str - 1)
           in substr str start (stop + 1 - start))"

subsection \<open>The type \<^verbatim>\<open>double\<close>\<close>

datatype double = Finite rat | PlusInf | MinusInf | NaN

text \<open>The power of 2 with an integer exponent.\<close>

definition pow2 :: "int \<Rightarrow> rat" where
  "pow2 k = (if 0 \<le> k then rat_of_int (2 ^ nat k) else 1 / rat_of_int (2 ^ nat (- k)))"

text \<open>\<open>ilog2 x\<close> is the exponent of \<open>x > 0\<close>: the \<open>e\<close> with \<open>2^e \<le> x < 2^(e+1)\<close>.\<close>

definition ilog2 :: "rat \<Rightarrow> int" where
  "ilog2 x = (let (a, b) = quotient_of x; d = bitlen a - bitlen b
              in if pow2 d \<le> x then d else d - 1)"

definition round_half_even :: "rat \<Rightarrow> int" where
  "round_half_even r =
     (let f = \<lfloor>r\<rfloor>; d = r - of_int f
      in if d < 1 / 2 then f else if 1 / 2 < d then f + 1 else if even f then f else f + 1)"

text \<open>
  Rounding to binary64, to nearest and ties to even: 53 significant bits, the least
  exponent \<open>-1022\<close> (below it the spacing stays \<open>2^-1074\<close>: the subnormal numbers), and an
  infinity when the rounded magnitude reaches \<open>2^1024\<close>.
\<close>

definition round_binary64 :: "rat \<Rightarrow> double" where
  "round_binary64 x =
     (if x = 0 then Finite 0
      else let m = \<bar>x\<bar>;
               e = max (ilog2 m) (- 1022);
               q = pow2 (e - 52);
               y = of_int (round_half_even (m / q)) * q
           in if pow2 1024 \<le> y then (if x < 0 then MinusInf else PlusInf)
              else Finite (if x < 0 then - y else y))"

text \<open>The product of two \<^verbatim>\<open>double\<close>s.\<close>

fun dmul :: "double \<Rightarrow> double \<Rightarrow> double" where
  "dmul (Finite a) (Finite b) = round_binary64 (a * b)"
| "dmul NaN y = NaN"
| "dmul x NaN = NaN"
| "dmul (Finite a) PlusInf = (if a = 0 then NaN else if 0 < a then PlusInf else MinusInf)"
| "dmul (Finite a) MinusInf = (if a = 0 then NaN else if 0 < a then MinusInf else PlusInf)"
| "dmul PlusInf (Finite b) = (if b = 0 then NaN else if 0 < b then PlusInf else MinusInf)"
| "dmul MinusInf (Finite b) = (if b = 0 then NaN else if 0 < b then MinusInf else PlusInf)"
| "dmul PlusInf PlusInf = PlusInf"
| "dmul PlusInf MinusInf = MinusInf"
| "dmul MinusInf PlusInf = MinusInf"
| "dmul MinusInf MinusInf = PlusInf"

text \<open>
  The conversion of an \<^verbatim>\<open>int\<close> operand to \<^verbatim>\<open>double\<close>; it is exact, an \<^verbatim>\<open>int\<close> having 32
  bits.
\<close>

definition double_of_int :: "int \<Rightarrow> double" where
  "double_of_int k = Finite (of_int k)"

text \<open>The comparison \<^verbatim>\<open><=\<close> of two \<^verbatim>\<open>double\<close>s (false when one is not a number).\<close>

fun dle :: "double \<Rightarrow> double \<Rightarrow> bool" where
  "dle NaN y = False"
| "dle x NaN = False"
| "dle MinusInf y = True"
| "dle x PlusInf = True"
| "dle (Finite a) (Finite b) = (a \<le> b)"
| "dle x y = False"

subsection \<open>The employee classes\<close>

text \<open>
  The three concrete classes; the first three fields are those of the base class
  \<^verbatim>\<open>Employee\<close> (\<open>getId\<close> reads \<^verbatim>\<open>id\<close>).
\<close>

datatype employee =
    FullTime (getId: string) (name: string) (salary: double)
  | PartTime (getId: string) (name: string) (salary: double)
      (hourlyRate: double) (hoursWorked: int)
  | Contractual (getId: string) (name: string) (salary: double)
      (paymentPerProject: double) (projectsCompleted: int)

text \<open>The constructors: the derived classes compute the salary they pass to the base.\<close>

definition FullTimeEmployee :: "string \<Rightarrow> string \<Rightarrow> double \<Rightarrow> employee" where
  "FullTimeEmployee i n s = FullTime i n s"

definition PartTimeEmployee :: "string \<Rightarrow> string \<Rightarrow> double \<Rightarrow> int \<Rightarrow> employee" where
  "PartTimeEmployee i n rate hours =
     PartTime i n (dmul rate (double_of_int hours)) rate hours"

definition ContractualEmployee :: "string \<Rightarrow> string \<Rightarrow> double \<Rightarrow> int \<Rightarrow> employee" where
  "ContractualEmployee i n rate projects =
     Contractual i n (dmul rate (double_of_int projects)) rate projects"

subsection \<open>Console output\<close>

datatype cout_item = Str string | Dbl double | Num int

fun display :: "employee \<Rightarrow> cout_item list" where
  "display (FullTime i n s) =
     [Str ''Employee: '', Str n, Str '' (ID: '', Str i, Str '')\<newline>'',
      Str ''Fixed Monthly Salary: $'', Dbl s, Str ''\<newline>\<newline>'']"
| "display (PartTime i n s rate hours) =
     [Str ''Employee: '', Str n, Str '' (ID: '', Str i, Str '')\<newline>'',
      Str ''Hourly Rate: $'', Dbl rate, Str ''\<newline>'',
      Str ''Hours Worked: '', Num hours, Str ''\<newline>'',
      Str ''Total Salary: $'', Dbl s, Str ''\<newline>\<newline>'']"
| "display (Contractual i n s rate projects) =
     [Str ''Employee: '', Str n, Str '' (ID: '', Str i, Str '')\<newline>'',
      Str ''Contract Payment Per Project: $'', Dbl rate, Str ''\<newline>'',
      Str ''Projects Completed: '', Num projects, Str ''\<newline>'',
      Str ''Total Salary: $'', Dbl s, Str ''\<newline>\<newline>'']"

subsection \<open>\<^verbatim>\<open>std::stoi\<close> and \<^verbatim>\<open>std::stod\<close>\<close>

datatype exn = invalid_argument | out_of_range

definition digit_value :: "char \<Rightarrow> int" where
  "digit_value c = of_char c - 48"

definition decimal :: "string \<Rightarrow> int" where
  "decimal ds = foldl (\<lambda>acc c. 10 * acc + digit_value c) 0 ds"

text \<open>
  \<^verbatim>\<open>std::stoi(str)\<close>, base 10: white space, an optional sign, then the longest run of
  digits; \<^verbatim>\<open>invalid_argument\<close> when there is no digit, \<^verbatim>\<open>out_of_range\<close> when the value
  is not an \<^verbatim>\<open>int\<close> (32 bits).
\<close>

definition stoi :: "string \<Rightarrow> exn + int" where
  "stoi str =
     (let s = dropWhile isspace str;
          neg = (s \<noteq> [] \<and> hd s = CHR ''-'');
          body = (if s \<noteq> [] \<and> (hd s = CHR ''-'' \<or> hd s = CHR ''+'') then tl s else s);
          ds = takeWhile isdigit body
      in if ds = [] then Inl invalid_argument
         else let v = (if neg then - decimal ds else decimal ds)
              in if v < - 2147483648 \<or> 2147483647 < v then Inl out_of_range else Inr v)"

text \<open>
  \<^verbatim>\<open>std::stod(str)\<close>: white space, an optional sign, digits with an optional decimal
  point; \<^verbatim>\<open>invalid_argument\<close> when there is no digit. The forms with an exponent, in
  hexadecimal, and \<^verbatim>\<open>inf\<close>/\<^verbatim>\<open>nan\<close> all need a letter and are left out: the validators
  only pass strings of digits and points. The value is the decimal rounded to binary64.
  \<^verbatim>\<open>strtod\<close> reports \<^verbatim>\<open>ERANGE\<close> when the value overflows and, depending on the C library,
  for values that underflow; the set of the decimals for which the library at hand reports
  it is the parameter \<open>erange\<close>. \<open>stod\<close> throws \<^verbatim>\<open>out_of_range\<close> there, and whenever
  the rounded value is an infinity.
\<close>

definition stod :: "(rat \<Rightarrow> bool) \<Rightarrow> string \<Rightarrow> exn + double" where
  "stod erange str =
     (let s = dropWhile isspace str;
          neg = (s \<noteq> [] \<and> hd s = CHR ''-'');
          body = (if s \<noteq> [] \<and> (hd s = CHR ''-'' \<or> hd s = CHR ''+'') then tl s else s);
          ip = takeWhile isdigit body;
          r = dropWhile isdigit body;
          fp = (if r \<noteq> [] \<and> hd r = CHR ''.'' then takeWhile isdigit (tl r) else [])
      in if ip = [] \<and> fp = [] then Inl invalid_argument
         else let m = of_int (decimal ip) + of_int (decimal fp) / 10 ^ length fp;
                  v = (if neg then - m else m)
              in if erange v \<or> round_binary64 v = PlusInf \<or> round_binary64 v = MinusInf
                 then Inl out_of_range
                 else Inr (round_binary64 v))"

text \<open>
  An instance of \<open>erange\<close> for the examples: the decimals that round to infinity in IEEE
  binary64 (overflow only, no report of an underflow).
\<close>

definition erange_overflow :: "rat \<Rightarrow> bool" where
  "erange_overflow v \<longleftrightarrow> pow2 1024 - pow2 970 \<le> \<bar>v\<bar>"

subsection \<open>Results of the console procedures\<close>

text \<open>
  A procedure that reads from the console returns a value, the lines left and the items it
  printed; or an exception leaves it, after the items printed so far; or it never returns.
\<close>

datatype 'a result =
    Return 'a "string list" "cout_item list"
  | Throw exn "cout_item list"
  | Diverge

fun emit :: "cout_item list \<Rightarrow> 'a result \<Rightarrow> 'a result" where
  "emit items (Return v rest out) = Return v rest (items @ out)"
| "emit items (Throw e out) = Throw e (items @ out)"
| "emit items Diverge = Diverge"

fun bind :: "'a result \<Rightarrow> ('a \<Rightarrow> string list \<Rightarrow> 'b result) \<Rightarrow> 'b result" where
  "bind (Return v rest out) f = emit out (f v rest)"
| "bind (Throw e out) f = Throw e out"
| "bind Diverge f = Diverge"

subsection \<open>\<^verbatim>\<open>PayrollSystem\<close>: the private validators\<close>

fun isIdUnique :: "employee list \<Rightarrow> string \<Rightarrow> bool" where
  "isIdUnique [] i = True"
| "isIdUnique (emp # employees) i = (if getId emp = i then False else isIdUnique employees i)"

text \<open>The \<^verbatim>\<open>for\<close> loops over the characters; each returns the flags it leaves.\<close>

fun scan_alnum :: "string \<Rightarrow> bool \<Rightarrow> bool" where
  "scan_alnum [] valid = valid"
| "scan_alnum (c # cs) valid = (if \<not> isalnum c then False else scan_alnum cs valid)"

fun scan_digit :: "string \<Rightarrow> bool \<Rightarrow> bool" where
  "scan_digit [] valid = valid"
| "scan_digit (c # cs) valid = (if \<not> isdigit c then False else scan_digit cs valid)"

fun scan_double :: "string \<Rightarrow> bool \<Rightarrow> int \<Rightarrow> bool \<Rightarrow> bool \<times> bool" where
  "scan_double [] valid decimalPoints hasDigit = (valid, hasDigit)"
| "scan_double (c # cs) valid decimalPoints hasDigit =
     (let (valid1, decimalPoints1, hasDigit1) =
            (if c = CHR ''.'' then
               (if decimalPoints + 1 > 1 then False else valid, decimalPoints + 1, hasDigit)
             else if isdigit c then (valid, decimalPoints, True)
             else (False, decimalPoints, hasDigit))
      in if \<not> valid1 then (valid1, hasDigit1)
         else scan_double cs valid1 decimalPoints1 hasDigit1)"

fun scan_name :: "string \<Rightarrow> bool \<Rightarrow> bool \<Rightarrow> bool" where
  "scan_name [] valid prevSpace = valid"
| "scan_name (c # cs) valid prevSpace =
     (let (valid1, prevSpace1) =
            (if isspace c then (if prevSpace then False else valid, True)
             else (if \<not> isalpha c then False else valid, False))
      in if \<not> valid1 then False else scan_name cs valid1 prevSpace1)"

fun getValidID :: "employee list \<Rightarrow> string list \<Rightarrow> string result" where
  "getValidID employees [] = Diverge"
| "getValidID employees (line # rest) =
     (let input = trim line;
          valid = scan_alnum input (input \<noteq> [])
      in if valid then
           (if isIdUnique employees input then Return input rest [Str ''Enter ID: '']
            else emit [Str ''Enter ID: '', Str ''Duplicate ID! Try again.\<newline>'']
                   (getValidID employees rest))
         else emit [Str ''Enter ID: '', Str ''Invalid ID! Use only letters and numbers.\<newline>'']
                (getValidID employees rest))"

fun getValidDouble :: "(rat \<Rightarrow> bool) \<Rightarrow> string \<Rightarrow> string list \<Rightarrow> double result" where
  "getValidDouble erange prompt [] = Diverge"
| "getValidDouble erange prompt (line # rest) =
     (let input = trim line;
          (valid, hasDigit) = scan_double input (input \<noteq> []) 0 False
      in if valid \<and> hasDigit then
           (case stod erange input of
              Inr v \<Rightarrow> Return v rest [Str prompt]
            | Inl invalid_argument \<Rightarrow>
                emit [Str prompt, Str ''Invalid input! Please enter a valid number.\<newline>'']
                  (getValidDouble erange prompt rest)
            | Inl out_of_range \<Rightarrow>
                emit [Str prompt, Str ''Input out of range for a double.\<newline>'']
                  (getValidDouble erange prompt rest))
         else emit [Str prompt,
                    Str ''Invalid input! Use numbers with optional single decimal point.\<newline>'']
                (getValidDouble erange prompt rest))"

fun getValidInt :: "string \<Rightarrow> string list \<Rightarrow> int result" where
  "getValidInt prompt [] = Diverge"
| "getValidInt prompt (line # rest) =
     (let input = trim line;
          valid = scan_digit input (input \<noteq> [])
      in if valid then
           (case stoi input of
              Inr v \<Rightarrow> Return v rest [Str prompt]
            | Inl invalid_argument \<Rightarrow>
                emit [Str prompt, Str ''Invalid input! Please enter a valid integer.\<newline>'']
                  (getValidInt prompt rest)
            | Inl out_of_range \<Rightarrow>
                emit [Str prompt, Str ''Input out of range for an integer.\<newline>'']
                  (getValidInt prompt rest))
         else emit [Str prompt, Str ''Invalid input! Please enter whole numbers only.\<newline>'']
                (getValidInt prompt rest))"

fun getValidName :: "string list \<Rightarrow> string result" where
  "getValidName [] = Diverge"
| "getValidName (line # rest) =
     (let input = trim line;
          valid = scan_name input (input \<noteq> []) False
      in if valid then Return input rest [Str ''Enter Name: '']
         else emit [Str ''Enter Name: '',
                    Str ''Invalid name! Use letters and single spaces between names.\<newline>'']
                (getValidName rest))"

subsection \<open>\<^verbatim>\<open>PayrollSystem\<close>: the public methods\<close>

text \<open>
  \<open>addEmployee\<close> returns the vector after the \<^verbatim>\<open>push_back\<close>. The \<^verbatim>\<open>switch\<close> has no
  default: for another \<open>type\<close> nothing is pushed.
\<close>

definition addEmployee ::
  "(rat \<Rightarrow> bool) \<Rightarrow> int \<Rightarrow> employee list \<Rightarrow> string list \<Rightarrow> employee list result" where
  "addEmployee erange type employees lines =
     bind (getValidID employees lines) (\<lambda>i lines1.
     bind (getValidName lines1) (\<lambda>n lines2.
     bind
       (if type = 1 then
          bind (getValidDouble erange ''Monthly Salary: $'' lines2) (\<lambda>salary lines3.
          Return (employees @ [FullTimeEmployee i n salary]) lines3 [])
        else if type = 2 then
          bind (getValidDouble erange ''Hourly Rate: $'' lines2) (\<lambda>rate lines3.
          bind (getValidInt ''Hours Worked: '' lines3) (\<lambda>hours lines4.
          Return (employees @ [PartTimeEmployee i n rate hours]) lines4 []))
        else if type = 3 then
          bind (getValidDouble erange ''Payment Per Project: $'' lines2) (\<lambda>rate lines3.
          bind (getValidInt ''Projects Completed: '' lines3) (\<lambda>projects lines4.
          Return (employees @ [ContractualEmployee i n rate projects]) lines4 []))
        else Return employees lines2 [])
       (\<lambda>employees1 lines5. Return employees1 lines5 [Str ''Employee added!\<newline>\<newline>''])))"

fun display_each :: "employee list \<Rightarrow> cout_item list" where
  "display_each [] = []"
| "display_each (emp # employees) = display emp @ display_each employees"

definition displayPayrollReport :: "employee list \<Rightarrow> cout_item list" where
  "displayPayrollReport employees =
     (if employees = [] then [Str ''No employees in system!\<newline>\<newline>'']
      else Str ''\<newline>Employee Payroll Report ---\<newline>'' # display_each employees)"

subsection \<open>\<^verbatim>\<open>main\<close>\<close>

definition menu :: "cout_item list" where
  "menu =
     [Str ''Payroll System Menu\<newline>'',
      Str ''1. Add Full-time Employee\<newline>'',
      Str ''2. Add Part-time Employee\<newline>'',
      Str ''3. Add Contractual Employee\<newline>'',
      Str ''4. Generate Report\<newline>'',
      Str ''5. Exit\<newline>'',
      Str ''Selection: '']"

text \<open>
  One turn of the \<^verbatim>\<open>while (running)\<close> loop on the line read for the selection: the value
  is \<open>running\<close> and the vector of employees after the turn.
\<close>

definition menu_iteration ::
  "(rat \<Rightarrow> bool) \<Rightarrow> employee list \<Rightarrow> string \<Rightarrow> string list \<Rightarrow> (bool \<times> employee list) result"
  where
  "menu_iteration erange employees line rest =
     emit menu
       (let choice = trim line
        in if length choice \<noteq> 1 \<or> \<not> isdigit (choice ! 0)
           then Return (True, employees) rest [Str ''Invalid menu choice!\<newline>'']
           else if choice ! 0 = CHR ''1''
           then bind (addEmployee erange 1 employees rest)
                  (\<lambda>employees1 rest1. Return (True, employees1) rest1 [])
           else if choice ! 0 = CHR ''2''
           then bind (addEmployee erange 2 employees rest)
                  (\<lambda>employees1 rest1. Return (True, employees1) rest1 [])
           else if choice ! 0 = CHR ''3''
           then bind (addEmployee erange 3 employees rest)
                  (\<lambda>employees1 rest1. Return (True, employees1) rest1 [])
           else if choice ! 0 = CHR ''4''
           then Return (True, employees) rest (displayPayrollReport employees)
           else if choice ! 0 = CHR ''5''
           then Return (False, employees) rest [Str ''Exiting system...\<newline>'']
           else Return (True, employees) rest [Str ''Invalid menu option!\<newline>''])"

text \<open>No procedure gives lines back: what is left is never longer than what it was given.\<close>

lemma emit_Return:
  "emit items r = Return v rest out \<Longrightarrow> \<exists>out1. r = Return v rest out1 \<and> out = items @ out1"
  by (cases r) auto

lemma bind_Return:
  "bind r f = Return v rest out \<Longrightarrow>
     \<exists>v1 rest1 out1 out2. r = Return v1 rest1 out1 \<and> f v1 rest1 = Return v rest out2
       \<and> out = out1 @ out2"
  by (cases r) (auto dest: emit_Return)

lemma getValidID_rest:
  "getValidID employees lines = Return v rest out \<Longrightarrow> length rest < length lines"
  by (induction lines arbitrary: out)
     (auto simp: Let_def split: if_splits dest!: emit_Return)

lemma getValidName_rest:
  "getValidName lines = Return v rest out \<Longrightarrow> length rest < length lines"
  by (induction lines arbitrary: out)
     (auto simp: Let_def split: if_splits dest!: emit_Return)

lemma getValidInt_rest:
  "getValidInt prompt lines = Return v rest out \<Longrightarrow> length rest < length lines"
  by (induction lines arbitrary: out)
     (auto simp: Let_def split: if_splits sum.splits exn.splits dest!: emit_Return)

lemma getValidDouble_rest:
  "getValidDouble erange prompt lines = Return v rest out \<Longrightarrow> length rest < length lines"
  by (induction lines arbitrary: out)
     (auto simp: Let_def split: if_splits sum.splits exn.splits prod.splits dest!: emit_Return)

lemma addEmployee_rest:
  "addEmployee erange type employees lines = Return v rest out \<Longrightarrow> length rest \<le> length lines"
  unfolding addEmployee_def
  by (auto split: if_splits dest!: bind_Return getValidID_rest getValidName_rest
        getValidInt_rest getValidDouble_rest)

lemma menu_iteration_rest:
  "menu_iteration erange employees line rest = Return v rest1 out \<Longrightarrow> length rest1 \<le> length rest"
  unfolding menu_iteration_def
  by (auto simp: Let_def split: if_splits dest!: emit_Return bind_Return addEmployee_rest)

text \<open>
  The loop of \<open>main\<close>, started on the vector \<open>employees\<close>; \<open>main\<close> itself starts it on the
  empty vector. It returns the exit status (and, for the statements below, the vector as
  it is when the loop ends).
\<close>

function main_loop ::
  "(rat \<Rightarrow> bool) \<Rightarrow> employee list \<Rightarrow> string list \<Rightarrow> (int \<times> employee list) result" where
  "main_loop erange employees [] = Diverge"
| "main_loop erange employees (line # rest) =
     (case menu_iteration erange employees line rest of
        Return (running, employees1) rest1 out \<Rightarrow>
          if running then emit out (main_loop erange employees1 rest1)
          else Return (0, employees1) rest1 out
      | Throw e out \<Rightarrow> Throw e out
      | Diverge \<Rightarrow> Diverge)"
  by pat_completeness auto
termination
  by (relation "measure (\<lambda>(erange, employees, lines). length lines)")
     (auto dest: menu_iteration_rest)

definition main :: "(rat \<Rightarrow> bool) \<Rightarrow> string list \<Rightarrow> (int \<times> employee list) result" where
  "main erange lines = main_loop erange [] lines"

text \<open>
  The registries that the loop can hold at the start or the end of a turn: the empty
  one, and the one a turn leaves when it started from such a registry, whatever the lines
  typed.
\<close>

inductive reachable :: "(rat \<Rightarrow> bool) \<Rightarrow> employee list \<Rightarrow> bool" for erange where
  start: "reachable erange []"
| turn: "reachable erange employees \<Longrightarrow>
         menu_iteration erange employees line rest = Return (running, employees1) rest1 out \<Longrightarrow>
         reachable erange employees1"

subsection \<open>The validators of \<^verbatim>\<open>src/DeepSeek.cpp\<close>\<close>

text \<open>
  \<^verbatim>\<open>DeepSeek.cpp\<close> (and \<^verbatim>\<open>Test_code.cpp\<close>, the same code with comments) reads the line
  without trimming it, and returns \<^verbatim>\<open>stoi(input)\<close> or \<^verbatim>\<open>stod(input)\<close> with no
  \<^verbatim>\<open>try\<close> around the call; no caller has one either. Its scan of an amount keeps no
  \<^verbatim>\<open>hasDigit\<close> flag.
\<close>

fun DeepSeek_scan_double :: "string \<Rightarrow> bool \<Rightarrow> int \<Rightarrow> bool" where
  "DeepSeek_scan_double [] valid decimalPoints = valid"
| "DeepSeek_scan_double (c # cs) valid decimalPoints =
     (let (valid1, decimalPoints1) =
            (if c = CHR ''.'' then
               (if decimalPoints + 1 > 1 then False else valid, decimalPoints + 1)
             else if \<not> isdigit c then (False, decimalPoints)
             else (valid, decimalPoints))
      in if \<not> valid1 then False else DeepSeek_scan_double cs valid1 decimalPoints1)"

fun DeepSeek_getValidInt :: "string \<Rightarrow> string list \<Rightarrow> int result" where
  "DeepSeek_getValidInt prompt [] = Diverge"
| "DeepSeek_getValidInt prompt (input # rest) =
     (let valid = scan_digit input (input \<noteq> [])
      in if valid then
           (case stoi input of
              Inr v \<Rightarrow> Return v rest [Str prompt]
            | Inl e \<Rightarrow> Throw e [Str prompt])
         else emit [Str prompt, Str ''Invalid input! Please enter whole numbers only.\<newline>'']
                (DeepSeek_getValidInt prompt rest))"

fun DeepSeek_getValidDouble :: "(rat \<Rightarrow> bool) \<Rightarrow> string \<Rightarrow> string list \<Rightarrow> double result" where
  "DeepSeek_getValidDouble erange prompt [] = Diverge"
| "DeepSeek_getValidDouble erange prompt (input # rest) =
     (let valid = DeepSeek_scan_double input (input \<noteq> []) 0
      in if valid then
           (case stod erange input of
              Inr v \<Rightarrow> Return v rest [Str prompt]
            | Inl e \<Rightarrow> Throw e [Str prompt])
         else emit [Str prompt,
                    Str ''Invalid input! Use numbers with optional single decimal point.\<newline>'']
                (DeepSeek_getValidDouble erange prompt rest))"

subsection \<open>Predicates for the statements\<close>

text \<open>No two neighbours in the string both satisfy \<open>P\<close>.\<close>

fun no_adjacent :: "(char \<Rightarrow> bool) \<Rightarrow> string \<Rightarrow> bool" where
  "no_adjacent P (a # b # cs) \<longleftrightarrow> \<not> (P a \<and> P b) \<and> no_adjacent P (b # cs)"
| "no_adjacent P cs \<longleftrightarrow> True"

text \<open>
  The name rule as the specification words it: not empty, letters and the space character
  only, no two spaces in a row.
\<close>

definition spec_name_rule :: "string \<Rightarrow> bool" where
  "spec_name_rule s \<longleftrightarrow>
     s \<noteq> [] \<and> list_all (\<lambda>c. isalpha c \<or> c = CHR '' '') s
     \<and> no_adjacent (\<lambda>c. c = CHR '' '') s"

text \<open>The grammar \<^verbatim>\<open>digit+ ('.' digit+)?\<close> of the specification.\<close>

definition spec_money_grammar :: "string \<Rightarrow> bool" where
  "spec_money_grammar s \<longleftrightarrow>
     (let ip = takeWhile isdigit s; r = dropWhile isdigit s
      in ip \<noteq> [] \<and> (r = [] \<or> (hd r = CHR ''.'' \<and> tl r \<noteq> [] \<and> (\<forall>c\<in>set (tl r). isdigit c))))"

section \<open>Properties of the helpers\<close>

subsection \<open>Rounding to \<^verbatim>\<open>double\<close>: examples\<close>

text \<open>
  A value that is a \<^verbatim>\<open>double\<close> stays as it is; 0.1 and \<open>-7/3\<close> go to the nearest
  \<^verbatim>\<open>double\<close>; the product \<open>(2^53 - 1) * 3\<close> loses its last bit; half-way between the
  greatest \<^verbatim>\<open>double\<close> and \<open>2^1024\<close> the value rounds to infinity, and so does the
  product \<open>2^1023 * 2\<close>.
\<close>

lemma round_binary64_examples:
  "round_binary64 (2401 / 2) = Finite (2401 / 2)"
  "round_binary64 (1 / 10) = Finite (3602879701896397 / 36028797018963968)"
  "round_binary64 (- 7 / 3) = Finite (- (5254199565265579 / 2251799813685248))"
  "round_binary64 27021597764222973 = Finite 27021597764222972"
  by code_simp+

lemma round_binary64_overflow: "round_binary64 (pow2 1024 - pow2 970) = PlusInf"
  by code_simp

lemma dmul_examples:
  "dmul (Finite 9007199254740991) (double_of_int 3) = Finite 27021597764222972"
  "dmul (Finite (pow2 1023)) (double_of_int 2) = PlusInf"
  by code_simp+

subsection \<open>\<open>trim\<close> removes the white space at both ends\<close>

lemma trim_start_eq:
  "str \<noteq> [] \<Longrightarrow> start \<le> length str \<Longrightarrow>
     trim_start str start (length str - 1) = start + length (takeWhile isspace (drop start str))"
proof (induction str start "length str - 1" rule: trim_start.induct)
  case (1 str start)
  show ?case
  proof (cases "start \<le> length str - 1 \<and> isspace (str ! start)")
    case True
    with "1.prems" have lt: "start < length str" by (cases str) auto
    then have d: "drop start str = str ! start # drop (Suc start) str"
      by (simp add: Cons_nth_drop_Suc)
    from True lt "1.prems" have
      "trim_start str (start + 1) (length str - 1)
         = start + 1 + length (takeWhile isspace (drop (start + 1) str))"
      by (intro "1.hyps") auto
    with True d show ?thesis by (subst trim_start.simps) simp
  next
    case False
    show ?thesis
    proof (cases "start < length str")
      case True
      with False have "\<not> isspace (str ! start)" by auto
      moreover from True have "drop start str = str ! start # drop (Suc start) str"
        by (simp add: Cons_nth_drop_Suc)
      ultimately show ?thesis using False by (subst trim_start.simps) simp
    next
      case False
      with "1.prems" have "start = length str" by simp
      moreover from "1.prems" have "\<not> length str \<le> length str - 1" by (cases str) auto
      ultimately show ?thesis by (subst trim_start.simps) simp
    qed
  qed
qed

lemma trim_end_eq:
  "start \<le> stop \<Longrightarrow> stop < length str \<Longrightarrow> \<not> isspace (str ! start) \<Longrightarrow>
     start \<le> trim_end str start stop \<and> trim_end str start stop \<le> stop \<and>
     take (trim_end str start stop + 1 - start) (drop start str)
       = rev (dropWhile isspace (rev (take (stop + 1 - start) (drop start str))))"
proof (induction str start stop rule: trim_end.induct)
  case (1 str start stop)
  let ?xs = "drop start str"
  have nth: "?xs ! (stop - start) = str ! stop"
    using "1.prems" by simp
  have tk: "take (stop + 1 - start) ?xs = take (stop - start) ?xs @ [str ! stop]"
    using "1.prems" nth by (simp add: Suc_diff_le take_Suc_conv_app_nth)
  show ?case
  proof (cases "isspace (str ! stop)")
    case True
    with "1.prems" have ne: "stop \<noteq> start" by auto
    with "1.prems" have gt: "start \<le> stop - 1" "stop \<noteq> 0" "stop - 1 < length str" by auto
    from True "1.prems" gt have ih:
      "start \<le> trim_end str start (stop - 1) \<and> trim_end str start (stop - 1) \<le> stop - 1 \<and>
       take (trim_end str start (stop - 1) + 1 - start) ?xs
         = rev (dropWhile isspace (rev (take (stop - 1 + 1 - start) ?xs)))"
      by (intro "1.IH") auto
    have step: "trim_end str start stop = trim_end str start (stop - 1)"
      using True "1.prems" gt by (subst trim_end.simps) simp
    have e1: "stop - 1 + 1 - start = stop - start"
      using gt by linarith
    have "rev (dropWhile isspace (rev (take (stop + 1 - start) ?xs)))
            = rev (dropWhile isspace (rev (take (stop - start) ?xs)))"
      unfolding tk using True by simp
    also have "\<dots> = take (trim_end str start (stop - 1) + 1 - start) ?xs"
      using ih unfolding e1 by simp
    finally have "take (trim_end str start stop + 1 - start) ?xs
            = rev (dropWhile isspace (rev (take (stop + 1 - start) ?xs)))"
      unfolding step by simp
    moreover from ih have "start \<le> trim_end str start stop" "trim_end str start stop \<le> stop"
      unfolding step by linarith+
    ultimately show ?thesis by blast
  next
    case False
    then have "trim_end str start stop = stop"
      by (subst trim_end.simps) simp
    with False tk "1.prems" show ?thesis by simp
  qed
qed

lemma trim_eq: "trim str = rev (dropWhile isspace (rev (dropWhile isspace str)))"
proof (cases "str = []")
  case True
  then show ?thesis by (simp add: trim_def)
next
  case False
  let ?start = "trim_start str 0 (length str - 1)"
  let ?stop = "trim_end str ?start (length str - 1)"
  have t: "trim str = take (?stop + 1 - ?start) (drop ?start str)"
    using False by (simp add: trim_def substr_def Let_def)
  have start: "?start = length (takeWhile isspace str)"
    using trim_start_eq [OF False, of 0] by simp
  have dw: "drop ?start str = dropWhile isspace str"
    unfolding start by (simp add: dropWhile_eq_drop)
  show ?thesis
  proof (cases "?start < length str")
    case True
    have ns: "\<not> isspace (str ! ?start)"
      using True unfolding start by (rule nth_length_takeWhile)
    from True have le: "?start \<le> length str - 1" and lt: "length str - 1 < length str"
      by linarith+
    from True have "length str - 1 + 1 - ?start = length str - ?start" by linarith
    then have tk: "take (length str - 1 + 1 - ?start) (drop ?start str) = drop ?start str"
      by simp
    from trim_end_eq [OF le lt ns] have
      "take (?stop + 1 - ?start) (drop ?start str)
         = rev (dropWhile isspace (rev (take (length str - 1 + 1 - ?start) (drop ?start str))))"
      by blast
    then have "trim str = rev (dropWhile isspace (rev (drop ?start str)))"
      unfolding tk t .
    then show ?thesis unfolding dw .
  next
    case False
    then have all: "?start = length str"
      using start length_takeWhile_le [of isspace str] by linarith
    from all dw have e: "dropWhile isspace str = []" by simp
    from all have "drop ?start str = []" by simp
    then have "trim str = []" unfolding t by simp
    then show ?thesis unfolding e by simp
  qed
qed

subsection \<open>What the scanning loops decide\<close>

lemma scan_alnum_iff: "scan_alnum cs valid \<longleftrightarrow> valid \<and> (\<forall>c\<in>set cs. isalnum c)"
  by (induction cs) auto

lemma scan_digit_iff: "scan_digit cs valid \<longleftrightarrow> valid \<and> (\<forall>c\<in>set cs. isdigit c)"
  by (induction cs) auto

lemma not_isdigit_point: "\<not> isdigit (CHR ''.'')"
  by (simp add: isdigit_def)

lemma scan_double_valid:
  "decimalPoints \<le> 1 \<Longrightarrow> fst (scan_double cs True decimalPoints hasDigit) \<longleftrightarrow>
     (\<forall>c\<in>set cs. isdigit c \<or> c = CHR ''.'') \<and> decimalPoints + int (count_list cs (CHR ''.'')) \<le> 1"
  by (induction cs arbitrary: decimalPoints hasDigit) (auto simp: not_isdigit_point)

lemma scan_double_hasDigit:
  "fst (scan_double cs True decimalPoints hasDigit) \<Longrightarrow>
     snd (scan_double cs True decimalPoints hasDigit) \<longleftrightarrow> hasDigit \<or> (\<exists>c\<in>set cs. isdigit c)"
  by (induction cs arbitrary: decimalPoints hasDigit) (auto simp: not_isdigit_point split: if_splits)

lemma scan_double_empty: "scan_double [] False 0 False = (False, False)"
  by simp

lemma no_adjacent_nth:
  "no_adjacent P cs \<longleftrightarrow> (\<forall>k. Suc k < length cs \<longrightarrow> \<not> (P (cs ! k) \<and> P (cs ! Suc k)))"
proof (induction P cs rule: no_adjacent.induct)
  case (1 P a b cs)
  show ?case
  proof
    assume l: "no_adjacent P (a # b # cs)"
    show "\<forall>k. Suc k < length (a # b # cs) \<longrightarrow>
            \<not> (P ((a # b # cs) ! k) \<and> P ((a # b # cs) ! Suc k))"
    proof (intro allI impI)
      fix k
      assume "Suc k < length (a # b # cs)"
      with l "1" show "\<not> (P ((a # b # cs) ! k) \<and> P ((a # b # cs) ! Suc k))"
        by (cases k) auto
    qed
  next
    assume r: "\<forall>k. Suc k < length (a # b # cs) \<longrightarrow>
                 \<not> (P ((a # b # cs) ! k) \<and> P ((a # b # cs) ! Suc k))"
    then have "\<not> (P a \<and> P b)" by (metis length_Cons nth_Cons_0 nth_Cons_Suc Suc_less_eq zero_less_Suc)
    moreover have "\<forall>k. Suc k < length (b # cs) \<longrightarrow> \<not> (P ((b # cs) ! k) \<and> P ((b # cs) ! Suc k))"
    proof (intro allI impI)
      fix k
      assume "Suc k < length (b # cs)"
      then have "Suc (Suc k) < length (a # b # cs)" by simp
      with r have "\<not> (P ((a # b # cs) ! Suc k) \<and> P ((a # b # cs) ! Suc (Suc k)))" by blast
      then show "\<not> (P ((b # cs) ! k) \<and> P ((b # cs) ! Suc k))" by simp
    qed
    ultimately show "no_adjacent P (a # b # cs)" using "1" by simp
  qed
qed simp_all

lemma scan_name_iff:
  "scan_name cs True prevSpace \<longleftrightarrow>
     (\<forall>c\<in>set cs. isalpha c \<or> isspace c) \<and> no_adjacent isspace cs
     \<and> \<not> (prevSpace \<and> cs \<noteq> [] \<and> isspace (hd cs))"
proof (induction cs arbitrary: prevSpace)
  case Nil
  then show ?case by simp
next
  case (Cons c cs)
  then show ?case by (cases cs) auto
qed

section \<open>The registry and the report\<close>

lemma isIdUnique_set: "isIdUnique employees i \<longleftrightarrow> i \<notin> getId ` set employees"
  by (induction employees) auto

text \<open>
  Claim C7. \<open>isIdUnique\<close> only reads the vector (it is a function of the vector and the
  identifier, and returns nothing but the answer), and it answers true exactly when no
  record of the vector has the identifier. So once two records with different identifiers
  have been pushed, it answers false for both identifiers, and for any other identifier it
  answers what it answered before (true, when the two records are the whole vector).
\<close>

theorem isIdUnique_query:
  "(isIdUnique employees i \<longleftrightarrow> i \<notin> getId ` set employees) \<and>
   (getId e1 \<noteq> getId e2 \<longrightarrow>
      \<not> isIdUnique (employees @ [e1, e2]) (getId e1) \<and>
      \<not> isIdUnique (employees @ [e1, e2]) (getId e2) \<and>
      (i \<noteq> getId e1 \<and> i \<noteq> getId e2 \<longrightarrow>
         isIdUnique (employees @ [e1, e2]) i = isIdUnique employees i \<and> isIdUnique [e1, e2] i))"
  by (auto simp: isIdUnique_set)

theorem isIdUnique_query_witness:
  "getId (FullTime ''A1'' ''Ann Lee'' (Finite 5000)) \<noteq> getId (PartTime ''B2'' ''Bob'' (Finite 40) (Finite 5) 8) \<and>
   \<not> isIdUnique [FullTime ''A1'' ''Ann Lee'' (Finite 5000), PartTime ''B2'' ''Bob'' (Finite 40) (Finite 5) 8] ''A1'' \<and>
   \<not> isIdUnique [FullTime ''A1'' ''Ann Lee'' (Finite 5000), PartTime ''B2'' ''Bob'' (Finite 40) (Finite 5) 8] ''B2'' \<and>
   isIdUnique [FullTime ''A1'' ''Ann Lee'' (Finite 5000), PartTime ''B2'' ''Bob'' (Finite 40) (Finite 5) 8] ''C3''"
  using isIdUnique_query [of "[]" "''C3''" "FullTime ''A1'' ''Ann Lee'' (Finite 5000)"
      "PartTime ''B2'' ''Bob'' (Finite 40) (Finite 5) 8"]
  by simp

lemma display_each_concat: "display_each employees = concat (map display employees)"
  by (induction employees) auto

text \<open>
  Claim C9. On the empty vector the report is exactly the message
  \<^verbatim>\<open>No employees in system!\<close>; on any other vector it is the header followed by one block
  for each record, in the order of the vector (the order of the insertions). The block
  depends on the variant: name, identifier and fixed salary for a full-time employee; name,
  identifier, hourly rate, hours and total for a part-time employee; name, identifier,
  payment per project, projects and total for a contractual employee.
\<close>

theorem displayPayrollReport_output:
  "displayPayrollReport [] = [Str ''No employees in system!\<newline>\<newline>''] \<and>
   (employees \<noteq> [] \<longrightarrow>
      displayPayrollReport employees
        = Str ''\<newline>Employee Payroll Report ---\<newline>'' # concat (map display employees)) \<and>
   display (FullTime i n s)
     = [Str ''Employee: '', Str n, Str '' (ID: '', Str i, Str '')\<newline>'',
        Str ''Fixed Monthly Salary: $'', Dbl s, Str ''\<newline>\<newline>''] \<and>
   display (PartTime i n s rate hours)
     = [Str ''Employee: '', Str n, Str '' (ID: '', Str i, Str '')\<newline>'',
        Str ''Hourly Rate: $'', Dbl rate, Str ''\<newline>'',
        Str ''Hours Worked: '', Num hours, Str ''\<newline>'',
        Str ''Total Salary: $'', Dbl s, Str ''\<newline>\<newline>''] \<and>
   display (Contractual i n s rate projects)
     = [Str ''Employee: '', Str n, Str '' (ID: '', Str i, Str '')\<newline>'',
        Str ''Contract Payment Per Project: $'', Dbl rate, Str ''\<newline>'',
        Str ''Projects Completed: '', Num projects, Str ''\<newline>'',
        Str ''Total Salary: $'', Dbl s, Str ''\<newline>\<newline>'']"
  by (simp add: displayPayrollReport_def display_each_concat)

theorem displayPayrollReport_output_witness:
  "[FullTime ''A1'' ''Ann Lee'' (Finite 5000), PartTime ''B2'' ''Bob'' (Finite 40) (Finite 5) 8,
    Contractual ''C3'' ''Cy'' (Finite 300) (Finite 100) 3] \<noteq> [] \<and>
   displayPayrollReport
     [FullTime ''A1'' ''Ann Lee'' (Finite 5000), PartTime ''B2'' ''Bob'' (Finite 40) (Finite 5) 8,
      Contractual ''C3'' ''Cy'' (Finite 300) (Finite 100) 3]
     = [Str ''\<newline>Employee Payroll Report ---\<newline>'',
        Str ''Employee: '', Str ''Ann Lee'', Str '' (ID: '', Str ''A1'', Str '')\<newline>'',
        Str ''Fixed Monthly Salary: $'', Dbl (Finite 5000), Str ''\<newline>\<newline>'',
        Str ''Employee: '', Str ''Bob'', Str '' (ID: '', Str ''B2'', Str '')\<newline>'',
        Str ''Hourly Rate: $'', Dbl (Finite 5), Str ''\<newline>'',
        Str ''Hours Worked: '', Num 8, Str ''\<newline>'',
        Str ''Total Salary: $'', Dbl (Finite 40), Str ''\<newline>\<newline>'',
        Str ''Employee: '', Str ''Cy'', Str '' (ID: '', Str ''C3'', Str '')\<newline>'',
        Str ''Contract Payment Per Project: $'', Dbl (Finite 100), Str ''\<newline>'',
        Str ''Projects Completed: '', Num 3, Str ''\<newline>'',
        Str ''Total Salary: $'', Dbl (Finite 300), Str ''\<newline>\<newline>'']"
proof -
  note r = displayPayrollReport_output
    [of "[FullTime ''A1'' ''Ann Lee'' (Finite 5000), PartTime ''B2'' ''Bob'' (Finite 40) (Finite 5) 8,
          Contractual ''C3'' ''Cy'' (Finite 300) (Finite 100) 3]"]
  from r have "displayPayrollReport
     [FullTime ''A1'' ''Ann Lee'' (Finite 5000), PartTime ''B2'' ''Bob'' (Finite 40) (Finite 5) 8,
      Contractual ''C3'' ''Cy'' (Finite 300) (Finite 100) 3]
     = Str ''\<newline>Employee Payroll Report ---\<newline>'' #
       concat (map display
         [FullTime ''A1'' ''Ann Lee'' (Finite 5000), PartTime ''B2'' ''Bob'' (Finite 40) (Finite 5) 8,
          Contractual ''C3'' ''Cy'' (Finite 300) (Finite 100) 3])"
    by blast
  then show ?thesis by simp
qed

lemma trim_4: "trim '' 4 '' = ''4''"
  by code_simp

text \<open>
  Claim C10. A turn of the loop that generates the report (selection \<^verbatim>\<open>4\<close>) hands the
  vector on as it was, and the loop goes on from the same vector and the same remaining
  input: whatever follows behaves as it would without the report, after the report's
  output.
\<close>

theorem report_keeps_registry:
  "trim line = ''4'' \<Longrightarrow>
     menu_iteration erange employees line rest
       = Return (True, employees) rest (menu @ displayPayrollReport employees) \<and>
     main_loop erange employees (line # rest)
       = emit (menu @ displayPayrollReport employees) (main_loop erange employees rest)"
  by (simp add: menu_iteration_def isdigit_def)

theorem report_keeps_registry_witness:
  "trim '' 4 '' = ''4'' \<and>
   menu_iteration erange_overflow [FullTime ''A1'' ''Ann Lee'' (Finite 5000)] '' 4 '' [''5'']
     = Return (True, [FullTime ''A1'' ''Ann Lee'' (Finite 5000)]) [''5'']
         (menu @ displayPayrollReport [FullTime ''A1'' ''Ann Lee'' (Finite 5000)])"
  using report_keeps_registry [OF trim_4, of erange_overflow "[FullTime ''A1'' ''Ann Lee'' (Finite 5000)]" "[''5'']"]
    trim_4
  by simp

section \<open>The identifier and the menu selection\<close>

lemma getValidID_step:
  "trim line \<noteq> [] \<Longrightarrow> \<forall>c\<in>set (trim line). isalnum c \<Longrightarrow>
     getValidID employees (line # rest) =
       (if isIdUnique employees (trim line) then Return (trim line) rest [Str ''Enter ID: '']
        else emit [Str ''Enter ID: '', Str ''Duplicate ID! Try again.\<newline>'']
               (getValidID employees rest))"
  by (simp add: scan_alnum_iff)

text \<open>
  Claim C5, as stated: the identifier loop rejects an identifier that is not yet in the
  registry. It does the opposite: on the empty vector the identifier \<^verbatim>\<open>A1\<close> is not present,
  and the loop returns it at once, with no message.
\<close>

theorem getValidID_not_present_counterexample:
  "isIdUnique [] ''A1'' \<and>
   getValidID [] [''A1'', ''B2''] = Return ''A1'' [''B2''] [Str ''Enter ID: '']"
  by code_simp

text \<open>
  Claim C5, amended: a well-formed identifier (not empty after trimming, letters and digits
  only) is rejected exactly when it is already present in the registry; the loop then prints
  \<^verbatim>\<open>Duplicate ID! Try again.\<close> and asks for the identifier again, and for nothing else. An
  identifier that is not present is returned.
\<close>

theorem getValidID_duplicate:
  "trim line \<noteq> [] \<and> (\<forall>c\<in>set (trim line). isalnum c) \<longrightarrow>
     (\<not> isIdUnique employees (trim line) \<longrightarrow>
        getValidID employees (line # rest)
          = emit [Str ''Enter ID: '', Str ''Duplicate ID! Try again.\<newline>'']
              (getValidID employees rest)) \<and>
     (isIdUnique employees (trim line) \<longrightarrow>
        getValidID employees (line # rest) = Return (trim line) rest [Str ''Enter ID: ''])"
  by (simp add: scan_alnum_iff)

theorem getValidID_duplicate_witness:
  "trim ''A1'' \<noteq> [] \<and> \<not> isIdUnique [FullTime ''A1'' ''Ann Lee'' (Finite 5000)] (trim ''A1'') \<and>
   getValidID [FullTime ''A1'' ''Ann Lee'' (Finite 5000)] [''A1'', ''B2'']
     = Return ''B2'' [] [Str ''Enter ID: '', Str ''Duplicate ID! Try again.\<newline>'',
                         Str ''Enter ID: '']"
proof -
  have t: "trim ''A1'' = ''A1''" "trim ''B2'' = ''B2''" by code_simp+
  have a: "\<forall>c\<in>set (trim ''A1''). isalnum c" unfolding t by (simp add: isalnum_def isalpha_def isdigit_def)
  have b: "\<forall>c\<in>set (trim ''B2''). isalnum c" unfolding t by (simp add: isalnum_def isalpha_def isdigit_def)
  show ?thesis
    using getValidID_duplicate [of "''A1''" "[FullTime ''A1'' ''Ann Lee'' (Finite 5000)]" "[''B2'']"]
      getValidID_step [of "''B2''" "[FullTime ''A1'' ''Ann Lee'' (Finite 5000)]" "[]"] a b
    by (simp add: t)
qed

text \<open>
  Claim C4, as stated: a selection whose first character is not one of \<^verbatim>\<open>1\<close> to \<^verbatim>\<open>5\<close> gets
  the message \<^verbatim>\<open>Invalid menu choice!\<close>. The selection \<^verbatim>\<open>6\<close> gets the other message,
  \<^verbatim>\<open>Invalid menu option!\<close>.
\<close>

theorem menu_iteration_invalid_counterexample:
  "menu_iteration erange_overflow [] ''6'' []
     = Return (True, []) [] (menu @ [Str ''Invalid menu option!\<newline>'']) \<and>
   Str ''Invalid menu choice!\<newline>'' \<notin> set (menu @ [Str ''Invalid menu option!\<newline>''])"
  by code_simp

text \<open>
  Claim C4, amended: a selection that, once trimmed, is not exactly one character or is not
  a digit gets \<^verbatim>\<open>Invalid menu choice!\<close>; a single digit other than \<^verbatim>\<open>1\<close> to \<^verbatim>\<open>5\<close> gets
  \<^verbatim>\<open>Invalid menu option!\<close>. In both cases the turn changes neither the vector nor the
  input left, and the loop goes on with the menu of the next turn.
\<close>

theorem menu_iteration_invalid:
  "(length (trim line) \<noteq> 1 \<or> \<not> isdigit (hd (trim line)) \<longrightarrow>
      menu_iteration erange employees line rest
        = Return (True, employees) rest (menu @ [Str ''Invalid menu choice!\<newline>'']) \<and>
      main_loop erange employees (line # rest)
        = emit (menu @ [Str ''Invalid menu choice!\<newline>'']) (main_loop erange employees rest)) \<and>
   (length (trim line) = 1 \<and> isdigit (hd (trim line)) \<and> hd (trim line) \<notin> set ''12345'' \<longrightarrow>
      menu_iteration erange employees line rest
        = Return (True, employees) rest (menu @ [Str ''Invalid menu option!\<newline>'']) \<and>
      main_loop erange employees (line # rest)
        = emit (menu @ [Str ''Invalid menu option!\<newline>'']) (main_loop erange employees rest))"
proof -
  have hd0: "length (trim line) = 1 \<Longrightarrow> trim line ! 0 = hd (trim line)"
    by (cases "trim line") auto
  show ?thesis
    by (auto simp: menu_iteration_def hd0)
qed

theorem menu_iteration_invalid_witness:
  "length (trim ''12'') \<noteq> 1 \<and>
   menu_iteration erange_overflow [] ''12'' [''5'']
     = Return (True, []) [''5''] (menu @ [Str ''Invalid menu choice!\<newline>'']) \<and>
   length (trim '' 6 '') = 1 \<and> isdigit (hd (trim '' 6 '')) \<and> hd (trim '' 6 '') \<notin> set ''12345'' \<and>
   menu_iteration erange_overflow [] '' 6 '' [''5'']
     = Return (True, []) [''5''] (menu @ [Str ''Invalid menu option!\<newline>''])"
proof -
  have t: "trim ''12'' = ''12''" "trim '' 6 '' = ''6''" by code_simp+
  show ?thesis
    using menu_iteration_invalid [of "''12''" erange_overflow "[]" "[''5'']"]
      menu_iteration_invalid [of "'' 6 ''" erange_overflow "[]" "[''5'']"]
    by (simp add: t isdigit_def)
qed

section \<open>The validators of names and amounts\<close>

subsection \<open>What \<open>stoi\<close> and \<open>stod\<close> do with validated input\<close>

lemma isdigit_not_isspace: "isdigit c \<Longrightarrow> \<not> isspace c"
  by (auto simp: isdigit_def isspace_def)

lemma isdigit_not_sign: "isdigit c \<Longrightarrow> c \<noteq> CHR ''-'' \<and> c \<noteq> CHR ''+''"
  by (auto simp: isdigit_def)

lemma digit_value_nonneg: "isdigit c \<Longrightarrow> 0 \<le> digit_value c"
  by (auto simp: isdigit_def digit_value_def)

lemma foldl_decimal_nonneg:
  "0 \<le> acc \<Longrightarrow> \<forall>c\<in>set ds. isdigit c \<Longrightarrow>
     0 \<le> foldl (\<lambda>acc c. 10 * acc + digit_value c) acc ds"
proof (induction ds arbitrary: acc)
  case Nil
  then show ?case by simp
next
  case (Cons d ds)
  from Cons.prems have "0 \<le> 10 * acc + digit_value d"
    using digit_value_nonneg [of d] by simp
  with Cons show ?case by simp
qed

lemma decimal_nonneg: "\<forall>c\<in>set ds. isdigit c \<Longrightarrow> 0 \<le> decimal ds"
  unfolding decimal_def by (rule foldl_decimal_nonneg) simp_all

lemma decimal_takeWhile_nonneg: "0 \<le> decimal (takeWhile isdigit s)"
  by (rule decimal_nonneg) (auto dest: set_takeWhileD)

lemma stoi_validated:
  assumes "s \<noteq> []" and "\<forall>c\<in>set s. isdigit c"
  shows "stoi s = (if 2147483647 < decimal s then Inl out_of_range else Inr (decimal s))"
    and "0 \<le> decimal s"
proof -
  from assms have h: "isdigit (hd s)" by (cases s) auto
  with assms have dw: "dropWhile isspace s = s"
    by (cases s) (auto dest: isdigit_not_isspace)
  from assms have tw: "takeWhile isdigit s = s" by (simp add: takeWhile_eq_all_conv)
  show nn: "0 \<le> decimal s" using assms by (simp add: decimal_nonneg)
  from h have "hd s \<noteq> CHR ''-''" "hd s \<noteq> CHR ''+''"
    using isdigit_not_sign by blast+
  with nn assms show "stoi s = (if 2147483647 < decimal s then Inl out_of_range else Inr (decimal s))"
    by (simp add: stoi_def dw tw Let_def)
qed

lemma round_half_even_nonneg: "0 \<le> r \<Longrightarrow> 0 \<le> round_half_even r"
  by (auto simp: round_half_even_def Let_def)

lemma round_binary64_nonneg:
  assumes "0 \<le> x"
  shows "round_binary64 x = PlusInf \<or> (\<exists>y. 0 \<le> y \<and> round_binary64 x = Finite y)"
proof (cases "x = 0")
  case True
  then show ?thesis by (simp add: round_binary64_def)
next
  case False
  define q :: rat where "q = pow2 (max (ilog2 \<bar>x\<bar>) (- 1022) - 52)"
  define y where "y = of_int (round_half_even (\<bar>x\<bar> / q)) * q"
  have q: "0 < q" unfolding q_def pow2_def by simp
  then have "0 \<le> \<bar>x\<bar> / q" by simp
  then have "0 \<le> round_half_even (\<bar>x\<bar> / q)" by (rule round_half_even_nonneg)
  with q have y: "0 \<le> y" unfolding y_def by simp
  from False assms have "\<not> x < 0" by simp
  with False have "round_binary64 x = (if pow2 1024 \<le> y then PlusInf else Finite y)"
    unfolding round_binary64_def Let_def y_def q_def by simp
  with y show ?thesis by auto
qed

lemma stod_validated:
  assumes chars: "\<forall>c\<in>set s. isdigit c \<or> c = CHR ''.''"
    and points: "count_list s (CHR ''.'') \<le> 1"
    and digit: "\<exists>c\<in>set s. isdigit c"
  shows "stod erange s = Inl out_of_range \<or> (\<exists>v. 0 \<le> v \<and> stod erange s = Inr (Finite v))"
proof -
  from digit have ne: "s \<noteq> []" by auto
  then have "hd s \<in> set s" by simp
  with chars have h: "isdigit (hd s) \<or> hd s = CHR ''.''" by blast
  then have nsp: "\<not> isspace (hd s)"
    by (auto dest: isdigit_not_isspace simp: isspace_def)
  with ne have dw: "dropWhile isspace s = s" by (cases s) auto
  from h have sign: "hd s \<noteq> CHR ''-''" "hd s \<noteq> CHR ''+''"
    using isdigit_not_sign by auto
  define ip where "ip = takeWhile isdigit s"
  define r where "r = dropWhile isdigit s"
  define fp where "fp = (if r \<noteq> [] \<and> hd r = CHR ''.'' then takeWhile isdigit (tl r) else [])"
  define m :: rat where "m = of_int (decimal ip) + of_int (decimal fp) / 10 ^ length fp"
  have some: "\<not> (ip = [] \<and> fp = [])"
  proof
    assume e: "ip = [] \<and> fp = []"
    with ne have nd: "\<not> isdigit (hd s)"
      by (cases s) (auto simp: ip_def split: if_splits)
    with h have p: "hd s = CHR ''.''" by simp
    from nd ne have rs: "r = s" by (cases s) (auto simp: r_def)
    from ne p obtain t where s: "s = CHR ''.'' # t" by (cases s) auto
    with points have "count_list t (CHR ''.'') = 0" by simp
    then have "CHR ''.'' \<notin> set t" by (simp add: count_list_0_iff)
    with chars s have all: "\<forall>c\<in>set t. isdigit c" by auto
    from digit s have tne: "t \<noteq> []" by (auto simp: not_isdigit_point)
    from all have tw: "takeWhile isdigit t = t" by (simp add: takeWhile_eq_all_conv)
    have f: "fp = takeWhile isdigit t" using rs s by (simp add: fp_def)
    have "fp = t" unfolding f by (rule tw)
    with tne have "fp \<noteq> []" by blast
    with e show False by simp
  qed
  have "0 \<le> decimal ip" unfolding ip_def by (rule decimal_takeWhile_nonneg)
  moreover have "0 \<le> decimal fp"
  proof (cases "r \<noteq> [] \<and> hd r = CHR ''.''")
    case True
    then have "fp = takeWhile isdigit (tl r)" by (simp add: fp_def)
    then show ?thesis by (simp only: decimal_takeWhile_nonneg)
  next
    case False
    then have "fp = []" by (auto simp: fp_def)
    then show ?thesis by (simp add: decimal_def)
  qed
  ultimately have nn: "0 \<le> m" unfolding m_def by simp
  have body: "(if s \<noteq> [] \<and> (hd s = CHR ''-'' \<or> hd s = CHR ''+'') then tl s else s) = s"
    using sign by simp
  have neg: "(s \<noteq> [] \<and> hd s = CHR ''-'') = False"
    using sign by simp
  have "stod erange s =
      (if ip = [] \<and> fp = [] then Inl invalid_argument
       else if erange m \<or> round_binary64 m = PlusInf \<or> round_binary64 m = MinusInf
            then Inl out_of_range else Inr (round_binary64 m))"
    unfolding m_def fp_def r_def ip_def stod_def Let_def dw body neg if_False
    by (rule refl)
  with some have eq: "stod erange s =
      (if erange m \<or> round_binary64 m = PlusInf \<or> round_binary64 m = MinusInf
       then Inl out_of_range else Inr (round_binary64 m))"
    by auto
  from round_binary64_nonneg [OF nn] show ?thesis
  proof
    assume "round_binary64 m = PlusInf"
    with eq show ?thesis by simp
  next
    assume "\<exists>y. 0 \<le> y \<and> round_binary64 m = Finite y"
    then obtain y where "0 \<le> y" "round_binary64 m = Finite y" by blast
    with eq show ?thesis by auto
  qed
qed

subsection \<open>Names\<close>

lemma emit_two_neq_Return_one: "emit (a # b # items) r \<noteq> Return v rest [c]"
  by (cases r) auto

text \<open>
  What the name loop of \<^verbatim>\<open>A_E.cpp\<close> does with a line: it accepts the line exactly when the
  line, with the white space at both ends removed, is not empty, each of its characters is
  a letter or satisfies \<^verbatim>\<open>isspace\<close>, and no two neighbours satisfy \<^verbatim>\<open>isspace\<close>. It then
  returns the trimmed line; otherwise it prints the error message and asks again.
\<close>

lemma getValidName_step:
  "getValidName (line # rest) =
     (if trim line \<noteq> [] \<and> (\<forall>c\<in>set (trim line). isalpha c \<or> isspace c)
           \<and> no_adjacent isspace (trim line)
      then Return (trim line) rest [Str ''Enter Name: '']
      else emit [Str ''Enter Name: '',
                 Str ''Invalid name! Use letters and single spaces between names.\<newline>'']
             (getValidName rest))"
proof (cases "trim line = []")
  case True
  then show ?thesis by simp
next
  case False
  then show ?thesis by (auto simp: scan_name_iff Let_def)
qed

lemma getValidName_examples:
  "getValidName [''John  Doe'', ''John3'', [], '' John Doe   '']
     = Return ''John Doe'' []
         [Str ''Enter Name: '',
          Str ''Invalid name! Use letters and single spaces between names.\<newline>'',
          Str ''Enter Name: '',
          Str ''Invalid name! Use letters and single spaces between names.\<newline>'',
          Str ''Enter Name: '',
          Str ''Invalid name! Use letters and single spaces between names.\<newline>'',
          Str ''Enter Name: '']"
proof -
  have t: "trim ''John  Doe'' = ''John  Doe''" "trim ''John3'' = ''John3''" "trim [] = []"
    "trim '' John Doe   '' = ''John Doe''"
    by code_simp+
  show ?thesis
    unfolding getValidName_step [of "''John  Doe''"] getValidName_step [of "''John3''"]
      getValidName_step [of "[]"] getValidName_step [of "'' John Doe   ''"] t
    by (simp add: isalpha_def isspace_def)
qed

text \<open>
  On a line whose only white-space characters (after trimming) are spaces, this is the rule
  of the specification.
\<close>

lemma no_adjacent_cong:
  "\<forall>c\<in>set cs. P c \<longleftrightarrow> Q c \<Longrightarrow> no_adjacent P cs \<longleftrightarrow> no_adjacent Q cs"
  by (induction P cs rule: no_adjacent.induct) auto

lemma getValidName_spec_rule:
  assumes "\<forall>c\<in>set (trim line). isspace c \<longrightarrow> c = CHR '' ''"
  shows "getValidName (line # rest) =
     (if spec_name_rule (trim line)
      then Return (trim line) rest [Str ''Enter Name: '']
      else emit [Str ''Enter Name: '',
                 Str ''Invalid name! Use letters and single spaces between names.\<newline>'']
             (getValidName rest))"
proof -
  have sp: "isspace (CHR '' '')" by (simp add: isspace_def)
  with assms have eq: "\<forall>c\<in>set (trim line). isspace c \<longleftrightarrow> c = CHR '' ''" by blast
  then have "no_adjacent isspace (trim line) \<longleftrightarrow> no_adjacent (\<lambda>c. c = CHR '' '') (trim line)"
    by (rule no_adjacent_cong)
  moreover from eq have "(\<forall>c\<in>set (trim line). isalpha c \<or> isspace c)
      \<longleftrightarrow> (\<forall>c\<in>set (trim line). isalpha c \<or> c = CHR '' '')"
    by blast
  ultimately have "spec_name_rule (trim line) \<longleftrightarrow>
      trim line \<noteq> [] \<and> (\<forall>c\<in>set (trim line). isalpha c \<or> isspace c)
      \<and> no_adjacent isspace (trim line)"
    unfolding spec_name_rule_def list_all_iff by blast
  then show ?thesis unfolding getValidName_step by simp
qed

text \<open>
  Claim C2. The rule of the claim is the one the program announces (its message asks for
  letters and single spaces, and \<^verbatim>\<open>DeepSeek.cpp\<close> compares with the space character), and
  by \<open>getValidName_spec_rule\<close> the loop of \<^verbatim>\<open>A_E.cpp\<close> follows it on every line whose white
  space is made of spaces. But the loop classifies with \<^verbatim>\<open>isspace\<close>, which also holds for
  a tab, a vertical tab, a form feed and a carriage return: the line \<^verbatim>\<open>John<TAB>Doe\<close>
  breaks the rule, and the loop accepts it.
\<close>

theorem getValidName_accepts_tab:
  "getValidName [''John'' @ CHR 0x09 # ''Doe'']
     = Return (''John'' @ CHR 0x09 # ''Doe'') [] [Str ''Enter Name: ''] \<and>
   \<not> spec_name_rule (trim (''John'' @ CHR 0x09 # ''Doe''))"
  by code_simp

subsection \<open>Monetary amounts\<close>

lemma scan_double_decides:
  assumes "scan_double input (input \<noteq> []) 0 False = (v, h)"
  shows "(v \<and> h) \<longleftrightarrow>
     input \<noteq> [] \<and> (\<forall>c\<in>set input. isdigit c \<or> c = CHR ''.'')
     \<and> count_list input (CHR ''.'') \<le> 1 \<and> (\<exists>c\<in>set input. isdigit c)"
proof (cases "input = []")
  case True
  with assms show ?thesis by simp
next
  case False
  with assms have v: "v = fst (scan_double input True 0 False)"
    and h: "h = snd (scan_double input True 0 False)"
    by simp_all
  have "v \<longleftrightarrow> (\<forall>c\<in>set input. isdigit c \<or> c = CHR ''.'')
      \<and> count_list input (CHR ''.'') \<le> 1"
    unfolding v by (subst scan_double_valid) simp_all
  moreover have "v \<Longrightarrow> h \<longleftrightarrow> (\<exists>c\<in>set input. isdigit c)"
    unfolding v h by (subst scan_double_hasDigit) simp_all
  ultimately show ?thesis using False by blast
qed

lemma getValidDouble_step:
  "getValidDouble erange prompt (line # rest) =
     (if trim line \<noteq> [] \<and> (\<forall>c\<in>set (trim line). isdigit c \<or> c = CHR ''.'')
           \<and> count_list (trim line) (CHR ''.'') \<le> 1 \<and> (\<exists>c\<in>set (trim line). isdigit c)
      then (case stod erange (trim line) of
              Inr v \<Rightarrow> Return v rest [Str prompt]
            | Inl e \<Rightarrow> emit [Str prompt, Str ''Input out of range for a double.\<newline>'']
                        (getValidDouble erange prompt rest))
      else emit [Str prompt,
                 Str ''Invalid input! Use numbers with optional single decimal point.\<newline>'']
             (getValidDouble erange prompt rest))"
proof (cases "scan_double (trim line) (trim line \<noteq> []) 0 False")
  case (Pair v h)
  let ?g = "trim line \<noteq> [] \<and> (\<forall>c\<in>set (trim line). isdigit c \<or> c = CHR ''.'')
      \<and> count_list (trim line) (CHR ''.'') \<le> 1 \<and> (\<exists>c\<in>set (trim line). isdigit c)"
  note s = scan_double_decides [OF Pair]
  show ?thesis
  proof (cases ?g)
    case True
    with s have "v \<and> h" by blast
    moreover from True have "stod erange (trim line) \<noteq> Inl invalid_argument"
      using stod_validated [of "trim line" erange] by (auto split: if_splits)
    ultimately show ?thesis using True Pair
      by (cases "stod erange (trim line)") (auto split: exn.splits)
  next
    case False
    with s have "\<not> (v \<and> h)" by blast
    with False Pair show ?thesis by auto
  qed
qed

text \<open>
  Claim C1, as stated: an amount is accepted only if it has a digit on each side of the
  decimal point. The loop only counts the points and asks for one digit anywhere:
  \<^verbatim>\<open>5.\<close> is accepted (as 5), and it does not match \<^verbatim>\<open>digit+ ('.' digit+)?\<close>.
\<close>

theorem getValidDouble_point_counterexample:
  "getValidDouble erange_overflow ''Hourly Rate: $'' [''5.'']
     = Return (Finite 5) [] [Str ''Hourly Rate: $''] \<and>
   \<not> spec_money_grammar (trim ''5.'')"
  by code_simp

text \<open>
  Claim C1, amended: the amount loop returns on a line exactly when the trimmed line is not
  empty, consists of digits and at most one point, contains at least one digit (on either
  side of the point), and \<open>stod\<close> does not report it out of range; it then returns the
  value \<open>stod\<close> parsed. A line with the right characters that is out of range gets the
  out-of-range message, any other line the message about the format, and in both cases the
  loop asks again. So \<^verbatim>\<open>1200.50\<close> gives 1200.5 and \<^verbatim>\<open>100\<close> gives 100, and \<^verbatim>\<open>12.5.6\<close>,
  \<^verbatim>\<open>abc\<close> and the empty line are rejected.
\<close>

theorem getValidDouble_accepts:
  "((\<exists>v. getValidDouble erange prompt (line # rest) = Return v rest [Str prompt]) \<longleftrightarrow>
      trim line \<noteq> [] \<and> (\<forall>c\<in>set (trim line). isdigit c \<or> c = CHR ''.'')
      \<and> count_list (trim line) (CHR ''.'') \<le> 1 \<and> (\<exists>c\<in>set (trim line). isdigit c)
      \<and> stod erange (trim line) \<noteq> Inl out_of_range) \<and>
   getValidDouble erange prompt (line # rest) =
     (if trim line \<noteq> [] \<and> (\<forall>c\<in>set (trim line). isdigit c \<or> c = CHR ''.'')
           \<and> count_list (trim line) (CHR ''.'') \<le> 1 \<and> (\<exists>c\<in>set (trim line). isdigit c)
      then (case stod erange (trim line) of
              Inr v \<Rightarrow> Return v rest [Str prompt]
            | Inl e \<Rightarrow> emit [Str prompt, Str ''Input out of range for a double.\<newline>'']
                        (getValidDouble erange prompt rest))
      else emit [Str prompt,
                 Str ''Invalid input! Use numbers with optional single decimal point.\<newline>'']
             (getValidDouble erange prompt rest))"
proof -
  let ?g = "trim line \<noteq> [] \<and> (\<forall>c\<in>set (trim line). isdigit c \<or> c = CHR ''.'')
      \<and> count_list (trim line) (CHR ''.'') \<le> 1 \<and> (\<exists>c\<in>set (trim line). isdigit c)"
  note eq = getValidDouble_step [of erange prompt line rest]
  have "(\<exists>v. getValidDouble erange prompt (line # rest) = Return v rest [Str prompt]) \<longleftrightarrow>
      ?g \<and> stod erange (trim line) \<noteq> Inl out_of_range"
  proof (cases ?g)
    case True
    moreover from True have "stod erange (trim line) \<noteq> Inl invalid_argument"
      using stod_validated [of "trim line" erange] by (auto split: if_splits)
    ultimately show ?thesis unfolding eq
      by (cases "stod erange (trim line)")
         (auto simp: emit_two_neq_Return_one split: exn.splits, (metis exn.exhaust)+)
  next
    case False
    then show ?thesis unfolding eq by (auto simp: emit_two_neq_Return_one)
  qed
  with eq show ?thesis by blast
qed

theorem getValidDouble_accepts_witness:
  "trim ''1200.50'' \<noteq> [] \<and> count_list (trim ''1200.50'') (CHR ''.'') \<le> 1 \<and>
   stod erange_overflow (trim ''1200.50'') = Inr (Finite (2401 / 2)) \<and>
   getValidDouble erange_overflow ''Monthly Salary: $'' [''1200.50'']
     = Return (Finite (2401 / 2)) [] [Str ''Monthly Salary: $''] \<and>
   getValidDouble erange_overflow ''Monthly Salary: $'' [''12.5.6'', ''abc'', [], ''100'']
     = Return (Finite 100) []
         [Str ''Monthly Salary: $'',
          Str ''Invalid input! Use numbers with optional single decimal point.\<newline>'',
          Str ''Monthly Salary: $'',
          Str ''Invalid input! Use numbers with optional single decimal point.\<newline>'',
          Str ''Monthly Salary: $'',
          Str ''Invalid input! Use numbers with optional single decimal point.\<newline>'',
          Str ''Monthly Salary: $'']"
proof -
  have t: "trim ''1200.50'' = ''1200.50''" by code_simp
  have g: "\<forall>c\<in>set ''1200.50''. isdigit c \<or> c = CHR ''.''" by (simp add: isdigit_def)
  have d: "\<exists>c\<in>set ''1200.50''. isdigit c" by (simp add: isdigit_def)
  have v: "stod erange_overflow ''1200.50'' = Inr (Finite (2401 / 2))" by code_simp
  have r: "getValidDouble erange_overflow ''Monthly Salary: $'' [''12.5.6'', ''abc'', [], ''100'']
     = Return (Finite 100) []
         [Str ''Monthly Salary: $'',
          Str ''Invalid input! Use numbers with optional single decimal point.\<newline>'',
          Str ''Monthly Salary: $'',
          Str ''Invalid input! Use numbers with optional single decimal point.\<newline>'',
          Str ''Monthly Salary: $'',
          Str ''Invalid input! Use numbers with optional single decimal point.\<newline>'',
          Str ''Monthly Salary: $'']"
    by code_simp
  show ?thesis
    using getValidDouble_accepts [of erange_overflow "''Monthly Salary: $''" "''1200.50''" "[]"]
      g d v r
    by (simp add: t)
qed

section \<open>Values out of range and exceptions\<close>

text \<open>
  In \<^verbatim>\<open>A_E.cpp\<close> a count that does not fit an \<^verbatim>\<open>int\<close> gets its own message and the loop
  asks again (for amounts this is the \<open>Inl\<close> case of \<open>getValidDouble_step\<close>), and no
  exception leaves a validator, \<open>addEmployee\<close> or the loop of \<open>main\<close>.
\<close>

lemma getValidInt_step:
  "getValidInt prompt (line # rest) =
     (if trim line \<noteq> [] \<and> (\<forall>c\<in>set (trim line). isdigit c)
      then (if 2147483647 < decimal (trim line)
            then emit [Str prompt, Str ''Input out of range for an integer.\<newline>'']
                   (getValidInt prompt rest)
            else Return (decimal (trim line)) rest [Str prompt])
      else emit [Str prompt, Str ''Invalid input! Please enter whole numbers only.\<newline>'']
             (getValidInt prompt rest))"
proof (cases "trim line \<noteq> [] \<and> (\<forall>c\<in>set (trim line). isdigit c)")
  case True
  then show ?thesis
    using stoi_validated(1) [of "trim line"] by (simp add: scan_digit_iff)
next
  case False
  then show ?thesis by (auto simp: scan_digit_iff Let_def)
qed

lemma emit_Throw: "emit items r = Throw e out \<Longrightarrow> \<exists>out1. r = Throw e out1"
  by (cases r) auto

lemma bind_Throw:
  "bind r f = Throw e out \<Longrightarrow>
     (\<exists>out1. r = Throw e out1) \<or> (\<exists>v rest out1 out2. r = Return v rest out1 \<and> f v rest = Throw e out2)"
  by (cases r) (auto dest: emit_Throw)

lemma getValidID_no_throw: "getValidID employees lines \<noteq> Throw e out"
  by (induction lines arbitrary: out) (auto simp: Let_def dest: emit_Throw)

lemma getValidName_no_throw: "getValidName lines \<noteq> Throw e out"
  by (induction lines arbitrary: out) (auto simp: Let_def dest: emit_Throw)

lemma getValidInt_no_throw: "getValidInt prompt lines \<noteq> Throw e out"
  by (induction lines arbitrary: out)
     (auto simp: Let_def split: sum.splits exn.splits dest: emit_Throw)

lemma getValidDouble_no_throw: "getValidDouble erange prompt lines \<noteq> Throw e out"
  by (induction lines arbitrary: out)
     (auto simp: Let_def split: sum.splits exn.splits prod.splits dest: emit_Throw)

lemma addEmployee_no_throw: "addEmployee erange type employees lines \<noteq> Throw e out"
  unfolding addEmployee_def
  by (auto dest!: bind_Throw split: if_splits
      simp: getValidID_no_throw getValidName_no_throw getValidInt_no_throw getValidDouble_no_throw)

lemma menu_iteration_no_throw: "menu_iteration erange employees line rest \<noteq> Throw e out"
  unfolding menu_iteration_def
  by (auto dest!: emit_Throw bind_Throw split: if_splits simp: Let_def addEmployee_no_throw)

lemma main_loop_no_throw: "main_loop erange employees lines \<noteq> Throw e out"
proof (induction erange employees lines arbitrary: out rule: main_loop.induct)
  case (1 erange employees)
  then show ?case by simp
next
  case (2 erange employees line rest)
  show ?case
  proof (cases "menu_iteration erange employees line rest")
    case (Return v rest1 out1)
    obtain running employees1 where v: "v = (running, employees1)" by (cases v)
    show ?thesis
    proof (cases running)
      case True
      with Return v "2.IH" [of v rest1 out1 running employees1] show ?thesis
        by (auto dest: emit_Throw)
    next
      case False
      with Return v show ?thesis by simp
    qed
  next
    case (Throw e1 out1)
    then show ?thesis using menu_iteration_no_throw by blast
  next
    case Diverge
    then show ?thesis by simp
  qed
qed

text \<open>
  Claim C3. The claim holds for \<^verbatim>\<open>A_E.cpp\<close> (lemmas \<open>getValidInt_step\<close>,
  \<open>getValidDouble_step\<close> and \<open>main_loop_no_throw\<close>), but not for \<^verbatim>\<open>DeepSeek.cpp\<close>: there
  the count \<^verbatim>\<open>99999999999\<close> passes the digit scan and \<open>stoi\<close> throws \<^verbatim>\<open>out_of_range\<close>
  out of the validator, and the amount \<^verbatim>\<open>.\<close> passes the scan and \<open>stod\<close> throws
  \<^verbatim>\<open>invalid_argument\<close>. Nothing catches either exception.
\<close>

theorem DeepSeek_validators_throw:
  "DeepSeek_getValidInt prompt (''99999999999'' # rest) = Throw out_of_range [Str prompt] \<and>
   DeepSeek_getValidDouble erange prompt (''.'' # rest) = Throw invalid_argument [Str prompt]"
proof -
  have "stoi ''99999999999'' = Inl out_of_range" by code_simp
  moreover have "scan_digit ''99999999999'' True" by code_simp
  moreover have "stod erange ''.'' = Inl invalid_argument"
    by (simp add: stod_def isspace_def isdigit_def)
  moreover have "DeepSeek_scan_double ''.'' True 0" by code_simp
  ultimately show ?thesis by (simp add: isdigit_def)
qed

section \<open>The records that \<open>addEmployee\<close> pushes\<close>

lemma getValidID_unique:
  "getValidID employees lines = Return i rest out \<Longrightarrow> isIdUnique employees i"
  by (induction lines arbitrary: out) (auto simp: Let_def split: if_splits dest!: emit_Return)

lemma getValidDouble_nonneg:
  "getValidDouble erange prompt lines = Return d rest out \<Longrightarrow> \<exists>v. 0 \<le> v \<and> d = Finite v"
proof (induction lines arbitrary: out)
  case Nil
  then show ?case by simp
next
  case (Cons line lines)
  let ?g = "trim line \<noteq> [] \<and> (\<forall>c\<in>set (trim line). isdigit c \<or> c = CHR ''.'')
      \<and> count_list (trim line) (CHR ''.'') \<le> 1 \<and> (\<exists>c\<in>set (trim line). isdigit c)"
  note p = Cons.prems [unfolded getValidDouble_step]
  show ?case
  proof (cases ?g)
    case True
    note p1 = p [unfolded if_P [OF True]]
    from True stod_validated [of "trim line" erange]
    have "stod erange (trim line) = Inl out_of_range
        \<or> (\<exists>v. 0 \<le> v \<and> stod erange (trim line) = Inr (Finite v))"
      by blast
    then show ?thesis
    proof
      assume "stod erange (trim line) = Inl out_of_range"
      with p1 obtain out1 where "getValidDouble erange prompt lines = Return d rest out1"
        by (auto dest!: emit_Return)
      then show ?thesis by (rule Cons.IH)
    next
      assume "\<exists>v. 0 \<le> v \<and> stod erange (trim line) = Inr (Finite v)"
      with p1 show ?thesis by auto
    qed
  next
    case False
    note p2 = p [unfolded if_not_P [OF False]]
    from emit_Return [OF p2] obtain out1 where
      "getValidDouble erange prompt lines = Return d rest out1" by blast
    then show ?thesis by (rule Cons.IH)
  qed
qed

lemma getValidInt_nonneg:
  "getValidInt prompt lines = Return v rest out \<Longrightarrow> 0 \<le> v"
proof (induction lines arbitrary: out)
  case Nil
  then show ?case by simp
next
  case (Cons line lines)
  note p = Cons.prems [unfolded getValidInt_step]
  show ?case
  proof (cases "trim line \<noteq> [] \<and> (\<forall>c\<in>set (trim line). isdigit c)
                 \<and> \<not> 2147483647 < decimal (trim line)")
    case True
    with p have "v = decimal (trim line)" by auto
    with True show ?thesis using stoi_validated(2) [of "trim line"] by simp
  next
    case False
    with p obtain out1 where "getValidInt prompt lines = Return v rest out1"
      by (auto dest!: emit_Return split: if_splits)
    then show ?thesis by (rule Cons.IH)
  qed
qed

lemma addEmployee_Return:
  assumes "addEmployee erange type employees lines = Return employees1 rest out"
  shows "\<exists>i n lines1 lines2 out1 out2.
      getValidID employees lines = Return i lines1 out1 \<and>
      getValidName lines1 = Return n lines2 out2 \<and>
      (if type = 1 then
         \<exists>s out3. getValidDouble erange ''Monthly Salary: $'' lines2 = Return s rest out3 \<and>
           employees1 = employees @ [FullTime i n s]
       else if type = 2 then
         \<exists>rate hours lines3 out3 out4.
           getValidDouble erange ''Hourly Rate: $'' lines2 = Return rate lines3 out3 \<and>
           getValidInt ''Hours Worked: '' lines3 = Return hours rest out4 \<and>
           employees1 = employees @ [PartTime i n (dmul rate (double_of_int hours)) rate hours]
       else if type = 3 then
         \<exists>rate projects lines3 out3 out4.
           getValidDouble erange ''Payment Per Project: $'' lines2 = Return rate lines3 out3 \<and>
           getValidInt ''Projects Completed: '' lines3 = Return projects rest out4 \<and>
           employees1 = employees @ [Contractual i n (dmul rate (double_of_int projects)) rate projects]
       else employees1 = employees \<and> rest = lines2)"
proof -
  from assms obtain i lines1 out1 r1 where
    a: "getValidID employees lines = Return i lines1 out1" and
    b: "bind (getValidName lines1) (\<lambda>n lines2.
     bind
       (if type = 1 then
          bind (getValidDouble erange ''Monthly Salary: $'' lines2) (\<lambda>salary lines3.
          Return (employees @ [FullTimeEmployee i n salary]) lines3 [])
        else if type = 2 then
          bind (getValidDouble erange ''Hourly Rate: $'' lines2) (\<lambda>rate lines3.
          bind (getValidInt ''Hours Worked: '' lines3) (\<lambda>hours lines4.
          Return (employees @ [PartTimeEmployee i n rate hours]) lines4 []))
        else if type = 3 then
          bind (getValidDouble erange ''Payment Per Project: $'' lines2) (\<lambda>rate lines3.
          bind (getValidInt ''Projects Completed: '' lines3) (\<lambda>projects lines4.
          Return (employees @ [ContractualEmployee i n rate projects]) lines4 []))
        else Return employees lines2 [])
       (\<lambda>employees1 lines5. Return employees1 lines5 [Str ''Employee added!\<newline>\<newline>'']))
      = Return employees1 rest r1"
    unfolding addEmployee_def by (blast dest: bind_Return)
  from b obtain n lines2 out2 r2 where
    c: "getValidName lines1 = Return n lines2 out2" and
    d: "bind
       (if type = 1 then
          bind (getValidDouble erange ''Monthly Salary: $'' lines2) (\<lambda>salary lines3.
          Return (employees @ [FullTimeEmployee i n salary]) lines3 [])
        else if type = 2 then
          bind (getValidDouble erange ''Hourly Rate: $'' lines2) (\<lambda>rate lines3.
          bind (getValidInt ''Hours Worked: '' lines3) (\<lambda>hours lines4.
          Return (employees @ [PartTimeEmployee i n rate hours]) lines4 []))
        else if type = 3 then
          bind (getValidDouble erange ''Payment Per Project: $'' lines2) (\<lambda>rate lines3.
          bind (getValidInt ''Projects Completed: '' lines3) (\<lambda>projects lines4.
          Return (employees @ [ContractualEmployee i n rate projects]) lines4 []))
        else Return employees lines2 [])
       (\<lambda>employees1 lines5. Return employees1 lines5 [Str ''Employee added!\<newline>\<newline>''])
      = Return employees1 rest r2"
    by (blast dest: bind_Return)
  have "if type = 1 then
         \<exists>s out3. getValidDouble erange ''Monthly Salary: $'' lines2 = Return s rest out3 \<and>
           employees1 = employees @ [FullTime i n s]
       else if type = 2 then
         \<exists>rate hours lines3 out3 out4.
           getValidDouble erange ''Hourly Rate: $'' lines2 = Return rate lines3 out3 \<and>
           getValidInt ''Hours Worked: '' lines3 = Return hours rest out4 \<and>
           employees1 = employees @ [PartTime i n (dmul rate (double_of_int hours)) rate hours]
       else if type = 3 then
         \<exists>rate projects lines3 out3 out4.
           getValidDouble erange ''Payment Per Project: $'' lines2 = Return rate lines3 out3 \<and>
           getValidInt ''Projects Completed: '' lines3 = Return projects rest out4 \<and>
           employees1 = employees @ [Contractual i n (dmul rate (double_of_int projects)) rate projects]
       else employees1 = employees \<and> rest = lines2"
    using d
    by (auto dest!: bind_Return split: if_splits
        simp: FullTimeEmployee_def PartTimeEmployee_def ContractualEmployee_def)
  with a c show ?thesis by blast
qed

text \<open>
  Claim C6. When \<open>addEmployee\<close> returns on the lines typed, it has pushed exactly one
  record, built from the values that the validators returned on those lines, one after the
  other: for a full-time employee the stored salary is the amount read at
  \<^verbatim>\<open>Monthly Salary\<close>, unchanged; for a part-time employee it is the \<^verbatim>\<open>double\<close> product of
  the hourly rate and the hours worked, both stored beside it; for a contractual employee
  it is the \<^verbatim>\<open>double\<close> product of the payment per project and the projects completed.
\<close>

theorem addEmployee_salary:
  "addEmployee erange type employees lines = Return employees1 rest out \<Longrightarrow>
     \<exists>i n lines1 lines2 out1 out2.
       getValidID employees lines = Return i lines1 out1 \<and>
       getValidName lines1 = Return n lines2 out2 \<and>
       (type = 1 \<longrightarrow>
          (\<exists>s out3.
             getValidDouble erange ''Monthly Salary: $'' lines2 = Return s rest out3 \<and>
             employees1 = employees @ [FullTime i n s] \<and> salary (last employees1) = s)) \<and>
       (type = 2 \<longrightarrow>
          (\<exists>rate hours lines3 out3 out4.
             getValidDouble erange ''Hourly Rate: $'' lines2 = Return rate lines3 out3 \<and>
             getValidInt ''Hours Worked: '' lines3 = Return hours rest out4 \<and>
             employees1 = employees @ [PartTime i n (dmul rate (double_of_int hours)) rate hours] \<and>
             salary (last employees1)
               = dmul (hourlyRate (last employees1))
                   (double_of_int (hoursWorked (last employees1))))) \<and>
       (type = 3 \<longrightarrow>
          (\<exists>rate projects lines3 out3 out4.
             getValidDouble erange ''Payment Per Project: $'' lines2 = Return rate lines3 out3 \<and>
             getValidInt ''Projects Completed: '' lines3 = Return projects rest out4 \<and>
             employees1
               = employees @ [Contractual i n (dmul rate (double_of_int projects)) rate projects] \<and>
             salary (last employees1)
               = dmul (paymentPerProject (last employees1))
                   (double_of_int (projectsCompleted (last employees1)))))"
proof -
  assume r: "addEmployee erange type employees lines = Return employees1 rest out"
  from addEmployee_Return [OF r] obtain i n lines1 lines2 out1 out2 where
    a: "getValidID employees lines = Return i lines1 out1" and
    b: "getValidName lines1 = Return n lines2 out2" and
    c: "if type = 1 then
         \<exists>s out3. getValidDouble erange ''Monthly Salary: $'' lines2 = Return s rest out3 \<and>
           employees1 = employees @ [FullTime i n s]
       else if type = 2 then
         \<exists>rate hours lines3 out3 out4.
           getValidDouble erange ''Hourly Rate: $'' lines2 = Return rate lines3 out3 \<and>
           getValidInt ''Hours Worked: '' lines3 = Return hours rest out4 \<and>
           employees1 = employees @ [PartTime i n (dmul rate (double_of_int hours)) rate hours]
       else if type = 3 then
         \<exists>rate projects lines3 out3 out4.
           getValidDouble erange ''Payment Per Project: $'' lines2 = Return rate lines3 out3 \<and>
           getValidInt ''Projects Completed: '' lines3 = Return projects rest out4 \<and>
           employees1
             = employees @ [Contractual i n (dmul rate (double_of_int projects)) rate projects]
       else employees1 = employees \<and> rest = lines2"
    by blast
  have 1: "type = 1 \<longrightarrow>
          (\<exists>s out3.
             getValidDouble erange ''Monthly Salary: $'' lines2 = Return s rest out3 \<and>
             employees1 = employees @ [FullTime i n s] \<and> salary (last employees1) = s)"
    using c by auto
  have 2: "type = 2 \<longrightarrow>
          (\<exists>rate hours lines3 out3 out4.
             getValidDouble erange ''Hourly Rate: $'' lines2 = Return rate lines3 out3 \<and>
             getValidInt ''Hours Worked: '' lines3 = Return hours rest out4 \<and>
             employees1 = employees @ [PartTime i n (dmul rate (double_of_int hours)) rate hours] \<and>
             salary (last employees1)
               = dmul (hourlyRate (last employees1))
                   (double_of_int (hoursWorked (last employees1))))"
    using c by auto
  have 3: "type = 3 \<longrightarrow>
          (\<exists>rate projects lines3 out3 out4.
             getValidDouble erange ''Payment Per Project: $'' lines2 = Return rate lines3 out3 \<and>
             getValidInt ''Projects Completed: '' lines3 = Return projects rest out4 \<and>
             employees1
               = employees @ [Contractual i n (dmul rate (double_of_int projects)) rate projects] \<and>
             salary (last employees1)
               = dmul (paymentPerProject (last employees1))
                   (double_of_int (projectsCompleted (last employees1))))"
    using c by auto
  from a b 1 2 3 show ?thesis by blast
qed

text \<open>
  The witness: a part-time employee with the rate \<open>2^53 - 1\<close> and 3 hours, whose exact
  product 27021597764222973 is not a \<^verbatim>\<open>double\<close> (the stored salary is the rounded
  27021597764222972), and a contractual employee with 0.1 per project and 3 projects.
\<close>

theorem addEmployee_salary_witness:
  "addEmployee erange_overflow 2 [] [''B2'', ''Bob'', ''9007199254740991'', ''3'']
     = Return [PartTime ''B2'' ''Bob'' (Finite 27021597764222972) (Finite 9007199254740991) 3] []
         [Str ''Enter ID: '', Str ''Enter Name: '', Str ''Hourly Rate: $'',
          Str ''Hours Worked: '', Str ''Employee added!\<newline>\<newline>''] \<and>
   getValidID [] [''B2'', ''Bob'', ''9007199254740991'', ''3'']
     = Return ''B2'' [''Bob'', ''9007199254740991'', ''3''] [Str ''Enter ID: ''] \<and>
   getValidName [''Bob'', ''9007199254740991'', ''3'']
     = Return ''Bob'' [''9007199254740991'', ''3''] [Str ''Enter Name: ''] \<and>
   getValidDouble erange_overflow ''Hourly Rate: $'' [''9007199254740991'', ''3'']
     = Return (Finite 9007199254740991) [''3''] [Str ''Hourly Rate: $''] \<and>
   getValidInt ''Hours Worked: '' [''3''] = Return 3 [] [Str ''Hours Worked: ''] \<and>
   dmul (Finite 9007199254740991) (double_of_int 3) = Finite 27021597764222972 \<and>
   addEmployee erange_overflow 3 [] [''C3'', ''Cy'', ''0.1'', ''3'']
     = Return [Contractual ''C3'' ''Cy'' (Finite (1351079888211149 / 4503599627370496))
                 (Finite (3602879701896397 / 36028797018963968)) 3] []
         [Str ''Enter ID: '', Str ''Enter Name: '', Str ''Payment Per Project: $'',
          Str ''Projects Completed: '', Str ''Employee added!\<newline>\<newline>'']"
proof -
  have e: "addEmployee erange_overflow 2 [] [''B2'', ''Bob'', ''9007199254740991'', ''3'']
     = Return [PartTime ''B2'' ''Bob'' (Finite 27021597764222972) (Finite 9007199254740991) 3] []
         [Str ''Enter ID: '', Str ''Enter Name: '', Str ''Hourly Rate: $'',
          Str ''Hours Worked: '', Str ''Employee added!\<newline>\<newline>'']"
    by code_simp
  have i: "getValidID [] [''B2'', ''Bob'', ''9007199254740991'', ''3'']
     = Return ''B2'' [''Bob'', ''9007199254740991'', ''3''] [Str ''Enter ID: '']"
    by code_simp
  have n: "getValidName [''Bob'', ''9007199254740991'', ''3'']
     = Return ''Bob'' [''9007199254740991'', ''3''] [Str ''Enter Name: '']"
    by code_simp
  have c: "addEmployee erange_overflow 3 [] [''C3'', ''Cy'', ''0.1'', ''3'']
     = Return [Contractual ''C3'' ''Cy'' (Finite (1351079888211149 / 4503599627370496))
                 (Finite (3602879701896397 / 36028797018963968)) 3] []
         [Str ''Enter ID: '', Str ''Enter Name: '', Str ''Payment Per Project: $'',
          Str ''Projects Completed: '', Str ''Employee added!\<newline>\<newline>'']"
    by code_simp
  have d: "getValidDouble erange_overflow ''Hourly Rate: $'' [''9007199254740991'', ''3'']
     = Return (Finite 9007199254740991) [''3''] [Str ''Hourly Rate: $'']"
    by code_simp
  have h: "getValidInt ''Hours Worked: '' [''3''] = Return 3 [] [Str ''Hours Worked: '']"
    by code_simp
  have m: "dmul (Finite 9007199254740991) (double_of_int 3) = Finite 27021597764222972"
    by code_simp
  show ?thesis
    using addEmployee_salary [OF e] e i n d h m c by simp
qed

section \<open>The invariant of the registry\<close>

lemma dmul_nonneg:
  assumes "0 \<le> a" and "0 \<le> k"
  shows "dle (Finite 0) (dmul (Finite a) (double_of_int k))"
proof -
  from assms have "0 \<le> a * of_int k" by simp
  from round_binary64_nonneg [OF this] show ?thesis
    by (auto simp: double_of_int_def)
qed

lemma addEmployee_invariant:
  assumes r: "addEmployee erange type employees lines = Return employees1 rest out"
    and d: "distinct (map getId employees)" and s: "\<forall>e\<in>set employees. dle (Finite 0) (salary e)"
  shows "distinct (map getId employees1) \<and> (\<forall>e\<in>set employees1. dle (Finite 0) (salary e))"
proof -
  from addEmployee_Return [OF r] obtain i n lines1 lines2 out1 out2 where
    i: "getValidID employees lines = Return i lines1 out1" and
    c: "if type = 1 then
         \<exists>s out3. getValidDouble erange ''Monthly Salary: $'' lines2 = Return s rest out3 \<and>
           employees1 = employees @ [FullTime i n s]
       else if type = 2 then
         \<exists>rate hours lines3 out3 out4.
           getValidDouble erange ''Hourly Rate: $'' lines2 = Return rate lines3 out3 \<and>
           getValidInt ''Hours Worked: '' lines3 = Return hours rest out4 \<and>
           employees1 = employees @ [PartTime i n (dmul rate (double_of_int hours)) rate hours]
       else if type = 3 then
         \<exists>rate projects lines3 out3 out4.
           getValidDouble erange ''Payment Per Project: $'' lines2 = Return rate lines3 out3 \<and>
           getValidInt ''Projects Completed: '' lines3 = Return projects rest out4 \<and>
           employees1 = employees @ [Contractual i n (dmul rate (double_of_int projects)) rate projects]
       else employees1 = employees \<and> rest = lines2"
    by blast
  from getValidID_unique [OF i] have u: "i \<notin> getId ` set employees"
    by (simp add: isIdUnique_set)
  from c d s u show ?thesis
    by (auto split: if_splits dest!: getValidDouble_nonneg getValidInt_nonneg
        simp: dmul_nonneg)
qed

lemma menu_iteration_invariant:
  assumes r: "menu_iteration erange employees line rest = Return (running, employees1) rest1 out"
    and d: "distinct (map getId employees)" and s: "\<forall>e\<in>set employees. dle (Finite 0) (salary e)"
  shows "distinct (map getId employees1) \<and> (\<forall>e\<in>set employees1. dle (Finite 0) (salary e))"
proof -
  from r have "employees1 = employees \<or>
      (\<exists>type rest2 out2. addEmployee erange type employees rest = Return employees1 rest2 out2)"
    unfolding menu_iteration_def
    by (auto simp: Let_def split: if_splits dest!: emit_Return bind_Return)
  then show ?thesis
  proof
    assume "employees1 = employees"
    with d s show ?thesis by simp
  next
    assume "\<exists>type rest2 out2. addEmployee erange type employees rest = Return employees1 rest2 out2"
    then obtain type rest2 out2 where
      "addEmployee erange type employees rest = Return employees1 rest2 out2" by blast
    from addEmployee_invariant [OF this d s] show ?thesis .
  qed
qed

lemma main_loop_reachable:
  "reachable erange employees \<Longrightarrow>
     main_loop erange employees lines = Return (status, employees1) rest out \<Longrightarrow>
     reachable erange employees1"
proof (induction erange employees lines arbitrary: out rule: main_loop.induct)
  case (1 erange employees)
  then show ?case by simp
next
  case (2 erange employees line rest0)
  show ?case
  proof (cases "menu_iteration erange employees line rest0")
    case (Return v rest1 out1)
    obtain running employees2 where v: "v = (running, employees2)" by (cases v)
    from "2.prems"(1) Return v have re: "reachable erange employees2"
      by (auto intro: reachable.turn)
    show ?thesis
    proof (cases running)
      case True
      with "2.prems"(2) Return v obtain out2 where
        "main_loop erange employees2 rest1 = Return (status, employees1) rest out2"
        by (auto dest!: emit_Return)
      with "2.IH" [OF Return v [symmetric] True re] show ?thesis by blast
    next
      case False
      with "2.prems"(2) Return v re show ?thesis by simp
    qed
  next
    case (Throw e1 out1)
    with "2.prems" show ?thesis by simp
  next
    case Diverge
    with "2.prems" show ?thesis by simp
  qed
qed

text \<open>
  Claim C8. In every registry that the loop of \<open>main\<close> can hold, no two records have the
  same identifier and every salary is at least 0 (as the comparison \<^verbatim>\<open>0 <= salary\<close> of
  two \<^verbatim>\<open>double\<close>s): the identifier loop only returns an identifier that \<open>isIdUnique\<close>
  accepts, and the scans of amounts and counts let no sign through, so \<open>stod\<close> and
  \<open>stoi\<close> return finite values that are not negative, and the \<^verbatim>\<open>double\<close> product of two
  such values is not negative either (it may be the infinity). (By \<open>main_loop_reachable\<close>
  the registry with which the loop ends is one of them.)
\<close>

theorem reachable_invariant:
  "reachable erange employees \<Longrightarrow>
     distinct (map getId employees) \<and> (\<forall>e\<in>set employees. dle (Finite 0) (salary e))"
proof (induction rule: reachable.induct)
  case start
  show ?case by simp
next
  case (turn employees line rest running employees1 rest1 out)
  from turn.IH have "distinct (map getId employees)" "\<forall>e\<in>set employees. dle (Finite 0) (salary e)"
    by blast+
  with turn.hyps(2) show ?case by (rule menu_iteration_invariant)
qed


theorem reachable_invariant_witness:
  "reachable erange_overflow
     [FullTime ''A1'' ''Ann Lee'' (Finite 5000), PartTime ''B2'' ''Bob'' (Finite 100) (Finite (25 / 2)) 8] \<and>
   distinct (map getId [FullTime ''A1'' ''Ann Lee'' (Finite 5000), PartTime ''B2'' ''Bob'' (Finite 100) (Finite (25 / 2)) 8]) \<and>
   dle (Finite 0) (salary (FullTime ''A1'' ''Ann Lee'' (Finite 5000))) \<and>
   dle (Finite 0) (salary (PartTime ''B2'' ''Bob'' (Finite 100) (Finite (25 / 2)) 8))"
proof -
  have t1: "menu_iteration erange_overflow [] ''1'' [''A1'', ''Ann Lee'', ''5000'']
      = Return (True, [FullTime ''A1'' ''Ann Lee'' (Finite 5000)]) []
          (menu @ [Str ''Enter ID: '', Str ''Enter Name: '', Str ''Monthly Salary: $'',
                   Str ''Employee added!\<newline>\<newline>''])"
    by code_simp
  have t2: "menu_iteration erange_overflow [FullTime ''A1'' ''Ann Lee'' (Finite 5000)] ''2''
        [''A1'', ''B2'', ''Bob'', ''12.5'', ''8'']
      = Return (True, [FullTime ''A1'' ''Ann Lee'' (Finite 5000), PartTime ''B2'' ''Bob'' (Finite 100) (Finite (25 / 2)) 8]) []
          (menu @ [Str ''Enter ID: '', Str ''Duplicate ID! Try again.\<newline>'',
                   Str ''Enter ID: '', Str ''Enter Name: '', Str ''Hourly Rate: $'',
                   Str ''Hours Worked: '', Str ''Employee added!\<newline>\<newline>''])"
    by code_simp
  have r: "reachable erange_overflow
     [FullTime ''A1'' ''Ann Lee'' (Finite 5000), PartTime ''B2'' ''Bob'' (Finite 100) (Finite (25 / 2)) 8]"
    by (rule reachable.turn [OF reachable.turn [OF reachable.start t1] t2])
  from reachable_invariant [OF r] r show ?thesis by simp
qed

end
